theory Spec2Isabelle
  imports Complex_Main "HOL-Library.Word" "HOL-Library.List_Lexorder"
begin

section \<open>The values of the host language\<close>

text \<open>
  \<^verbatim>\<open>GpayApiClient.node.js\<close> is JavaScript. A string is a sequence of UTF-16 code units, and
  the default \<^verbatim>\<open>Array.prototype.sort\<close> compares strings code unit by code unit, a proper
  prefix first: that is the lexicographic order of \<^theory_text>\<open>HOL-Library.List_Lexorder\<close> on lists
  of 16-bit words.
\<close>

type_synonym code_unit = "16 word"
type_synonym jsstring = "code_unit list"

definition str :: "string \<Rightarrow> jsstring" where
  "str s = map (\<lambda>c. of_nat (of_char c)) s"

text \<open>
  A finite Number \<open>Fin r\<close> has the exact value \<open>r\<close>; the two zeros are identified.
  The integers up to \<open>2^53\<close> in magnitude are Numbers, and \<^verbatim>\<open>Number::toString\<close> prints
  them as their decimal numeral. Rounding any other decimal value to a Number, and printing
  any other Number, depend on the binary format: both are left to the platform.
\<close>

datatype jsnum = NaN | PosInf | NegInf | Fin rat

text \<open>
  The values that \<^verbatim>\<open>JSON.parse\<close> yields, and \<^verbatim>\<open>undefined\<close>. An object is the list of
  its own properties in creation order, with distinct keys; all of them are enumerable data
  properties and its prototype is \<^verbatim>\<open>Object.prototype\<close>.
\<close>

datatype jsval =
    JUndefined
  | JNull
  | JBool bool
  | JNum jsnum
  | JStr jsstring
  | JObj "(jsstring \<times> jsval) list"
  | JArr "jsval list"

type_synonym jsobject = "(jsstring \<times> jsval) list"

text \<open>
  Every \<^verbatim>\<open>throw new Error(...)\<close> of the source is a constructor, in the order of the source:
  the constructor's guard, the two of \<^verbatim>\<open>sendRequest\<close> (the second with the text of its
  message) and the two of \<^verbatim>\<open>verifyResponse\<close>. The last three are raised by the platform:
  a \<^verbatim>\<open>TypeError\<close> (a property of \<^verbatim>\<open>undefined\<close> or \<^verbatim>\<open>null\<close>, an object that cannot be
  converted to a primitive), the \<^verbatim>\<open>SyntaxError\<close> of \<^verbatim>\<open>JSON.parse\<close> and a rejected
  \<^verbatim>\<open>fetch\<close>.
\<close>

datatype error =
    InvalidBaseUrl
  | NoJsonResponse
  | GPayApiError jsstring
  | MissingSignature
  | HashMismatch
  | TypeError
  | SyntaxError
  | FetchRejected

definition bindE :: "error + 'a \<Rightarrow> ('a \<Rightarrow> error + 'b) \<Rightarrow> error + 'b" where
  "bindE m f = (case m of Inl e \<Rightarrow> Inl e | Inr x \<Rightarrow> f x)"

fun mapE :: "('a \<Rightarrow> error + 'b) \<Rightarrow> 'a list \<Rightarrow> error + 'b list" where
  "mapE f [] = Inr []"
| "mapE f (x # xs) = bindE (f x) (\<lambda>y. bindE (mapE f xs) (\<lambda>ys. Inr (y # ys)))"

subsection \<open>What the platform supplies\<close>

text \<open>
  The request handed to \<^verbatim>\<open>fetch\<close>; the body is \<^verbatim>\<open>JSON.stringify(parameters)\<close>, carried
  here as the parameter object itself.
\<close>

record request =
  url :: jsstring
  requestHeaders :: "(jsstring \<times> jsstring) list"
  requestBody :: jsobject

text \<open>
  What comes back: \<^verbatim>\<open>fetch\<close> (or reading the body) rejects, or there is a response with
  its headers as \<^verbatim>\<open>Headers.forEach\<close> enumerates them, the result of \<^verbatim>\<open>JSON.parse\<close> on
  its text (\<open>None\<close> when the text is not JSON) and its status.
\<close>

datatype reply =
    Rejected
  | Response "(jsstring \<times> jsstring) list" "jsval option" nat

record platform =
  hmacSha256 :: "jsstring \<Rightarrow> jsstring \<Rightarrow> 256 word"
  randomBytes32 :: "256 word"
  dateNow :: int
  fetch :: "request \<Rightarrow> reply"
  roundNumber :: "rat \<Rightarrow> jsnum"
  numberToString :: "rat \<Rightarrow> jsstring"

text \<open>
  \<open>hmacSha256 key message\<close> is the digest of \<^verbatim>\<open>crypto.createHmac('sha256', key)\<close> after
  \<^verbatim>\<open>update(message)\<close>; \<open>randomBytes32\<close> is one draw of \<^verbatim>\<open>crypto.randomBytes(32)\<close>;
  \<open>dateNow\<close> is \<^verbatim>\<open>Date.now()\<close>. \<open>roundNumber\<close> and \<open>numberToString\<close> are asked only
  about values that are not safe integers.
\<close>

subsection \<open>Numbers and their numerals\<close>

definition isSafeInteger :: "rat \<Rightarrow> bool" where
  "isSafeInteger r = (r = of_int \<lfloor>r\<rfloor> \<and> \<bar>r\<bar> \<le> 2 ^ 53)"

definition toDouble :: "platform \<Rightarrow> rat \<Rightarrow> jsnum" where
  "toDouble pf r = (if isSafeInteger r then Fin r else roundNumber pf r)"

definition digitChar :: "nat \<Rightarrow> code_unit" where
  "digitChar d = of_nat (48 + d)"

fun natDigits :: "nat \<Rightarrow> jsstring" where
  "natDigits n = (if n < 10 then [digitChar n] else natDigits (n div 10) @ [digitChar (n mod 10)])"

declare natDigits.simps [simp del]

definition intToString :: "int \<Rightarrow> jsstring" where
  "intToString i = (if i < 0 then 0x2D # natDigits (nat (- i)) else natDigits (nat i))"

definition numToString :: "platform \<Rightarrow> jsnum \<Rightarrow> jsstring" where
  "numToString pf n =
     (case n of
        NaN \<Rightarrow> str ''NaN''
      | PosInf \<Rightarrow> str ''Infinity''
      | NegInf \<Rightarrow> str ''-Infinity''
      | Fin r \<Rightarrow> if isSafeInteger r then intToString \<lfloor>r\<rfloor> else numberToString pf r)"

subsection \<open>Conversions\<close>

fun truthy :: "jsval \<Rightarrow> bool" where
  "truthy JUndefined = False"
| "truthy JNull = False"
| "truthy (JBool b) = b"
| "truthy (JNum n) = (n \<noteq> NaN \<and> n \<noteq> Fin 0)"
| "truthy (JStr s) = (s \<noteq> [])"
| "truthy (JObj ps) = True"
| "truthy (JArr xs) = True"

text \<open>\<^verbatim>\<open>a || b\<close>\<close>

definition jsOr :: "jsval \<Rightarrow> jsval \<Rightarrow> jsval" where
  "jsOr a b = (if truthy a then a else b)"

text \<open>
  \<^verbatim>\<open>ToString\<close>, as a template literal and \<^verbatim>\<open>+\<close> with a string apply it. An object born
  of \<^verbatim>\<open>JSON.parse\<close> inherits \<^verbatim>\<open>Object.prototype.toString\<close> unless it has an own property
  of that name, which is then not callable, and neither is any own \<^verbatim>\<open>valueOf\<close> of use:
  the conversion throws. An array is joined with commas, \<^verbatim>\<open>undefined\<close> and \<^verbatim>\<open>null\<close>
  elements giving the empty string.
\<close>

fun toStr :: "platform \<Rightarrow> jsval \<Rightarrow> error + jsstring"
  and joinElems :: "platform \<Rightarrow> jsval list \<Rightarrow> error + jsstring" where
  "toStr pf JUndefined = Inr (str ''undefined'')"
| "toStr pf JNull = Inr (str ''null'')"
| "toStr pf (JBool b) = Inr (if b then str ''true'' else str ''false'')"
| "toStr pf (JNum n) = Inr (numToString pf n)"
| "toStr pf (JStr s) = Inr s"
| "toStr pf (JObj ps) =
     (if str ''toString'' \<in> set (map fst ps) then Inl TypeError else Inr (str ''[object Object]''))"
| "toStr pf (JArr xs) = joinElems pf xs"
| "joinElems pf [] = Inr []"
| "joinElems pf (x # xs) =
     bindE (if x = JUndefined \<or> x = JNull then Inr [] else toStr pf x)
       (\<lambda>s. if xs = [] then Inr s
             else bindE (joinElems pf xs) (\<lambda>t. Inr (s @ str '','' @ t)))"

subsection \<open>Ordinary objects\<close>

text \<open>
  A property read \<^verbatim>\<open>obj[key]\<close> on an object. The program reads an object's own keys and the
  fixed names of headers and response fields, none of which \<^verbatim>\<open>Object.prototype\<close> has, so an
  absent key reads as \<^verbatim>\<open>undefined\<close>.
\<close>

definition objGet :: "jsobject \<Rightarrow> jsstring \<Rightarrow> jsval" where
  "objGet obj k = (case map_of obj k of None \<Rightarrow> JUndefined | Some v \<Rightarrow> v)"

text \<open>
  \<^verbatim>\<open>v.name\<close> for a value \<open>v\<close> other than \<^verbatim>\<open>undefined\<close> and \<^verbatim>\<open>null\<close>, on which the read
  is a \<^verbatim>\<open>TypeError\<close> (the callers test for the two). The names the program reads are no
  properties of strings, numbers, booleans or arrays.
\<close>

fun propOf :: "jsval \<Rightarrow> jsstring \<Rightarrow> jsval" where
  "propOf (JObj ps) k = objGet ps k"
| "propOf v k = JUndefined"

text \<open>
  An array index is the canonical numeral of an integer below \<open>2^32 - 1\<close>. The own keys
  of an object are enumerated (\<^verbatim>\<open>Object.keys\<close>, \<^verbatim>\<open>Object.entries\<close>) with the array indices
  first, in ascending numeric order, then the other keys in creation order.
\<close>

definition isDigit :: "code_unit \<Rightarrow> bool" where
  "isDigit c = (0x30 \<le> c \<and> c \<le> 0x39)"

definition digitsValue :: "jsstring \<Rightarrow> nat" where
  "digitsValue ds = foldl (\<lambda>a c. 10 * a + (unat c - 48)) 0 ds"

definition isArrayIndex :: "jsstring \<Rightarrow> bool" where
  "isArrayIndex k =
     (k \<noteq> [] \<and> list_all isDigit k \<and> (length k = 1 \<or> hd k \<noteq> 0x30) \<and> digitsValue k < 4294967295)"

definition ownKeys :: "jsobject \<Rightarrow> jsstring list" where
  "ownKeys obj =
     sort_key digitsValue (filter isArrayIndex (map fst obj))
     @ filter (\<lambda>k. \<not> isArrayIndex k) (map fst obj)"

definition entries :: "jsobject \<Rightarrow> (jsstring \<times> jsval) list" where
  "entries obj = map (\<lambda>k. (k, objGet obj k)) (ownKeys obj)"

text \<open>
  The assignment \<^verbatim>\<open>obj[key] = value\<close> on an object that began as \<^verbatim>\<open>{}\<close>: an existing
  property keeps its place, a new one is created last. The name \<^verbatim>\<open>__proto__\<close> is the
  accessor inherited from \<^verbatim>\<open>Object.prototype\<close>: assigning to it creates no own property.
\<close>

definition objSet :: "jsobject \<Rightarrow> jsstring \<Rightarrow> jsval \<Rightarrow> jsobject" where
  "objSet obj k v =
     (if k = str ''__proto__'' then obj
      else if k \<in> set (map fst obj) then map (\<lambda>(k', v'). if k' = k then (k', v) else (k', v')) obj
      else obj @ [(k, v)])"

section \<open>The client\<close>

text \<open>The frozen table \<^verbatim>\<open>BaseUrl\<close>, entry by entry; its values are \<^verbatim>\<open>Object.values(BaseUrl)\<close>.\<close>

definition BaseUrl_STAGING :: jsstring where
  "BaseUrl_STAGING = str ''https://gpay-staging.libyaguide.net/banking/api/onlinewallet/v1''"

definition BaseUrl_PRODUCTION :: jsstring where
  "BaseUrl_PRODUCTION = str ''https://gpay.ly/banking/api/onlinewallet/v1''"

definition BaseUrl_DEV :: jsstring where
  "BaseUrl_DEV = str ''http://localhost:8080/banking/api/onlinewallet/v1''"

definition BaseUrl :: "(jsstring \<times> jsstring) list" where
  "BaseUrl =
     [(str ''STAGING'', BaseUrl_STAGING),
      (str ''PRODUCTION'', BaseUrl_PRODUCTION),
      (str ''DEV'', BaseUrl_DEV)]"

record GPayApiClient =
  apiKey :: jsstring
  secretKey :: jsstring
  password :: jsstring
  baseUrl :: jsstring
  language :: jsstring

text \<open>
  The constructor; \<open>None\<close> for the language is the omitted argument, which defaults to
  \<^verbatim>\<open>'en'\<close>.
\<close>

definition newGPayApiClient ::
  "jsstring \<Rightarrow> jsstring \<Rightarrow> jsstring \<Rightarrow> jsstring \<Rightarrow> jsstring option \<Rightarrow> error + GPayApiClient" where
  "newGPayApiClient apiKey' secretKey' password' baseUrl' language' =
     (if baseUrl' \<notin> set (map snd BaseUrl) then Inl InvalidBaseUrl
      else Inr \<lparr> apiKey = apiKey', secretKey = secretKey', password = password',
                 baseUrl = baseUrl',
                 language = (case language' of None \<Rightarrow> str ''en'' | Some l \<Rightarrow> l) \<rparr>)"

subsection \<open>Signing\<close>

text \<open>\<^verbatim>\<open>Buffer.toString('base64')\<close> and \<^verbatim>\<open>digest('base64')\<close> of 32 bytes.\<close>

definition bytes32 :: "256 word \<Rightarrow> 8 word list" where
  "bytes32 w = map (\<lambda>i. ucast (drop_bit (8 * (31 - i)) w)) [0..<32]"

definition base64Alphabet :: jsstring where
  "base64Alphabet = str ''ABCDEFGHIJKLMNOPQRSTUVWXYZabcdefghijklmnopqrstuvwxyz0123456789+/''"

definition base64Char :: "nat \<Rightarrow> code_unit" where
  "base64Char n = base64Alphabet ! n"

fun base64 :: "8 word list \<Rightarrow> jsstring" where
  "base64 [] = []"
| "base64 [a] = [base64Char (unat a div 4), base64Char (unat a mod 4 * 16), 0x3D, 0x3D]"
| "base64 [a, b] =
     [base64Char (unat a div 4), base64Char (unat a mod 4 * 16 + unat b div 16),
      base64Char (unat b mod 16 * 4), 0x3D]"
| "base64 (a # b # c # r) =
     [base64Char (unat a div 4), base64Char (unat a mod 4 * 16 + unat b div 16),
      base64Char (unat b mod 16 * 4 + unat c div 64), base64Char (unat c mod 64)] @ base64 r"

definition generateSalt :: "platform \<Rightarrow> jsstring" where
  "generateSalt pf = base64 (bytes32 (randomBytes32 pf))"

text \<open>\<^verbatim>\<open>salt + password\<close>, the password being a string.\<close>

definition generateHashToken :: "platform \<Rightarrow> jsval \<Rightarrow> jsstring \<Rightarrow> error + jsstring" where
  "generateHashToken pf salt password' = bindE (toStr pf salt) (\<lambda>s. Inr (s @ password'))"

text \<open>The \<^verbatim>\<open>reduce\<close> that copies the parameters, key by key in sorted order, into \<^verbatim>\<open>{}\<close>.\<close>

definition sortedParams :: "jsobject \<Rightarrow> jsobject" where
  "sortedParams parameters =
     fold (\<lambda>key obj. objSet obj key (objGet parameters key)) (sort (ownKeys parameters)) []"

definition entryString :: "platform \<Rightarrow> jsstring \<times> jsval \<Rightarrow> error + jsstring" where
  "entryString pf e =
     (case e of (key, value) \<Rightarrow>
        bindE (if value = JUndefined \<or> value = JNull then Inr [] else toStr pf value)
          (\<lambda>s. Inr (key @ str ''='' @ s)))"

text \<open>\<^verbatim>\<open>Array.prototype.join(sep)\<close> on strings.\<close>

fun joinWith :: "jsstring \<Rightarrow> jsstring list \<Rightarrow> jsstring" where
  "joinWith sep [] = []"
| "joinWith sep [x] = x"
| "joinWith sep (x # y # ys) = x @ sep @ joinWith sep (y # ys)"

definition queryString :: "platform \<Rightarrow> jsobject \<Rightarrow> error + jsstring" where
  "queryString pf parameters =
     bindE (mapE (entryString pf) (entries (sortedParams parameters)))
       (\<lambda>parts. Inr (joinWith (str ''&'') parts))"

definition generateVerificationHash ::
  "platform \<Rightarrow> GPayApiClient \<Rightarrow> jsstring \<Rightarrow> jsobject \<Rightarrow> error + jsstring" where
  "generateVerificationHash pf this hashToken parameters =
     bindE (queryString pf parameters)
       (\<lambda>qs. Inr (base64 (bytes32 (hmacSha256 pf (secretKey this) (hashToken @ qs)))))"

subsection \<open>Verifying\<close>

definition receivedHash :: "jsobject \<Rightarrow> jsval" where
  "receivedHash headers =
     jsOr (objGet headers (str ''x-signature-hash'')) (objGet headers (str ''X-Signature-Hash''))"

definition receivedSalt :: "jsobject \<Rightarrow> jsval" where
  "receivedSalt headers =
     jsOr (objGet headers (str ''x-signature-salt'')) (objGet headers (str ''X-Signature-Salt''))"

definition verifyResponse ::
  "platform \<Rightarrow> GPayApiClient \<Rightarrow> jsobject \<Rightarrow> jsobject \<Rightarrow> error + unit" where
  "verifyResponse pf this headers responseFields =
     (if \<not> truthy (receivedHash headers) \<or> \<not> truthy (receivedSalt headers)
      then Inl MissingSignature
      else bindE (generateHashToken pf (receivedSalt headers) (password this))
             (\<lambda>hashToken. bindE (generateVerificationHash pf this hashToken responseFields)
                (\<lambda>verificationHash.
                   if JStr verificationHash \<noteq> receivedHash headers then Inl HashMismatch
                   else Inr ())))"


subsection \<open>Sending\<close>

text \<open>What \<^verbatim>\<open>sendRequest\<close> returns.\<close>

record sendResult =
  response :: jsval
  headers :: jsobject
  code :: nat

text \<open>
  \<^verbatim>\<open>sendRequest\<close> in its two halves: up to the call of \<^verbatim>\<open>fetch\<close>, the request that is
  signed and sent; after it, what is made of the reply.
\<close>

definition signedRequest ::
  "platform \<Rightarrow> GPayApiClient \<Rightarrow> jsstring \<Rightarrow> jsobject \<Rightarrow> error + request" where
  "signedRequest pf this endpoint parameters =
     (let salt = generateSalt pf in
      bindE (generateHashToken pf (JStr salt) (password this)) (\<lambda>hashToken.
      bindE (generateVerificationHash pf this hashToken parameters) (\<lambda>verificationHash.
        Inr \<lparr> url = baseUrl this @ endpoint,
              requestHeaders =
                [(str ''Authorization'', str ''Bearer '' @ apiKey this),
                 (str ''Accept-Language'', language this),
                 (str ''X-Signature-Salt'', salt),
                 (str ''X-Signature-Hash'', verificationHash),
                 (str ''Content-Type'', str ''application/json'')],
              requestBody = parameters \<rparr>)))"

text \<open>
  What is thrown when the body has a truthy \<^verbatim>\<open>error\<close>: the message is the template
  \<^verbatim>\<open>GPay API Error (${errorCode}): ${errorMsg}\<close>, whose two conversions can throw themselves.
\<close>

definition thrownApiError :: "platform \<Rightarrow> jsval \<Rightarrow> error" where
  "thrownApiError pf err =
     (let errorMsg = jsOr (propOf err (str ''message'')) (JStr (str ''Unknown error''));
          errorCode = jsOr (propOf err (str ''code'')) (JStr (str ''UNKNOWN_CODE''))
      in case toStr pf errorCode of
           Inl t \<Rightarrow> t
         | Inr c \<Rightarrow>
             (case toStr pf errorMsg of
                Inl t \<Rightarrow> t
              | Inr m \<Rightarrow> GPayApiError (str ''GPay API Error ('' @ c @ str ''): '' @ m)))"

definition readResponse :: "platform \<Rightarrow> reply \<Rightarrow> error + sendResult" where
  "readResponse pf r =
     (case r of
        Rejected \<Rightarrow> Inl FetchRejected
      | Response hs body status \<Rightarrow>
          (let headers' = fold (\<lambda>(key, value) obj. objSet obj key (JStr value)) hs [] in
           case body of
             None \<Rightarrow> Inl SyntaxError
           | Some responseJson \<Rightarrow>
               if \<not> truthy responseJson then Inl NoJsonResponse
               else if truthy (propOf responseJson (str ''error''))
               then Inl (thrownApiError pf (propOf responseJson (str ''error'')))
               else Inr \<lparr> response = responseJson, headers = headers', code = status \<rparr>))"

definition sendRequest ::
  "platform \<Rightarrow> GPayApiClient \<Rightarrow> jsstring \<Rightarrow> jsobject \<Rightarrow> error + sendResult" where
  "sendRequest pf this endpoint parameters =
     bindE (signedRequest pf this endpoint parameters) (\<lambda>req. readResponse pf (fetch pf req))"

section \<open>The result records\<close>

subsection \<open>\<^verbatim>\<open>parseFloat\<close> and \<^verbatim>\<open>Number\<close>\<close>

definition isWhiteSpace :: "code_unit \<Rightarrow> bool" where
  "isWhiteSpace c =
     (c \<in> {0x9, 0xA, 0xB, 0xC, 0xD, 0x20, 0xA0, 0x1680, 0x2028, 0x2029, 0x202F, 0x205F,
           0x3000, 0xFEFF}
      \<or> (0x2000 \<le> c \<and> c \<le> 0x200A))"

definition trimStart :: "jsstring \<Rightarrow> jsstring" where
  "trimStart s = dropWhile isWhiteSpace s"

definition trimEnd :: "jsstring \<Rightarrow> jsstring" where
  "trimEnd s = rev (dropWhile isWhiteSpace (rev s))"

text \<open>The value of the digits \<open>ds\<close> scaled by \<open>10 ^ e\<close>.\<close>

definition decimalValue :: "jsstring \<Rightarrow> int \<Rightarrow> rat" where
  "decimalValue ds e =
     of_nat (digitsValue ds) * (if 0 \<le> e then 10 ^ nat e else 1 / 10 ^ nat (- e))"

text \<open>\<^verbatim>\<open>ExponentPart\<close>: \<^verbatim>\<open>e\<close> or \<^verbatim>\<open>E\<close>, an optional sign, at least one digit.\<close>

definition exponentPart :: "jsstring \<Rightarrow> (int \<times> jsstring) option" where
  "exponentPart s =
     (case s of
        [] \<Rightarrow> None
      | c # r \<Rightarrow>
          if c = 0x65 \<or> c = 0x45
          then (let neg = (r \<noteq> [] \<and> hd r = 0x2D);
                    r' = (if r \<noteq> [] \<and> (hd r = 0x2D \<or> hd r = 0x2B) then tl r else r)
                in if takeWhile isDigit r' = [] then None
                   else Some ((if neg then - 1 else 1) * int (digitsValue (takeWhile isDigit r')),
                              dropWhile isDigit r'))
          else None)"

text \<open>
  The longest prefix that is a \<^verbatim>\<open>StrUnsignedDecimalLiteral\<close>, as its value and the rest
  of the string.
\<close>

definition strUnsignedDecimalLiteral :: "platform \<Rightarrow> jsstring \<Rightarrow> (jsnum \<times> jsstring) option" where
  "strUnsignedDecimalLiteral pf s =
     (if take 8 s = str ''Infinity'' then Some (PosInf, drop 8 s)
      else
        (let ip = takeWhile isDigit s;
             r1 = dropWhile isDigit s;
             dot = (r1 \<noteq> [] \<and> hd r1 = 0x2E);
             fp = (if dot then takeWhile isDigit (tl r1) else []);
             r2 = (if dot then dropWhile isDigit (tl r1) else r1)
         in if ip = [] \<and> fp = [] then None
            else (case exponentPart r2 of
                    None \<Rightarrow> Some (toDouble pf (decimalValue (ip @ fp) (- int (length fp))), r2)
                  | Some (e, r3) \<Rightarrow>
                      Some (toDouble pf (decimalValue (ip @ fp) (e - int (length fp))), r3))))"

fun negate :: "jsnum \<Rightarrow> jsnum" where
  "negate NaN = NaN"
| "negate PosInf = NegInf"
| "negate NegInf = PosInf"
| "negate (Fin r) = Fin (- r)"

definition strDecimalLiteral :: "platform \<Rightarrow> jsstring \<Rightarrow> (jsnum \<times> jsstring) option" where
  "strDecimalLiteral pf s =
     (if s \<noteq> [] \<and> hd s = 0x2B then strUnsignedDecimalLiteral pf (tl s)
      else if s \<noteq> [] \<and> hd s = 0x2D
      then map_option (\<lambda>(n, r). (negate n, r)) (strUnsignedDecimalLiteral pf (tl s))
      else strUnsignedDecimalLiteral pf s)"

definition parseFloat :: "platform \<Rightarrow> jsval \<Rightarrow> error + jsnum" where
  "parseFloat pf v =
     bindE (toStr pf v) (\<lambda>inputString.
       Inr (case strDecimalLiteral pf (trimStart inputString) of
              None \<Rightarrow> NaN
            | Some (n, r) \<Rightarrow> n))"

text \<open>\<^verbatim>\<open>NonDecimalIntegerLiteral\<close>: \<^verbatim>\<open>0b\<close>, \<^verbatim>\<open>0o\<close> or \<^verbatim>\<open>0x\<close> and digits of that base.\<close>

definition baseDigit :: "code_unit \<Rightarrow> nat option" where
  "baseDigit c =
     (if 0x30 \<le> c \<and> c \<le> 0x39 then Some (unat c - 0x30)
      else if 0x61 \<le> c \<and> c \<le> 0x66 then Some (unat c - 0x61 + 10)
      else if 0x41 \<le> c \<and> c \<le> 0x46 then Some (unat c - 0x41 + 10)
      else None)"

definition digitsInBase :: "nat \<Rightarrow> jsstring \<Rightarrow> nat option" where
  "digitsInBase b ds =
     (if ds \<noteq> [] \<and> list_all (\<lambda>c. case baseDigit c of None \<Rightarrow> False | Some d \<Rightarrow> d < b) ds
      then Some (foldl (\<lambda>a c. b * a + the (baseDigit c)) 0 ds)
      else None)"

definition nonDecimalIntegerLiteral :: "platform \<Rightarrow> jsstring \<Rightarrow> jsnum option" where
  "nonDecimalIntegerLiteral pf s =
     (case s of
        z # x # ds \<Rightarrow>
          if z = 0x30
          then map_option (\<lambda>n. toDouble pf (of_nat n))
                 (if x = 0x62 \<or> x = 0x42 then digitsInBase 2 ds
                  else if x = 0x6F \<or> x = 0x4F then digitsInBase 8 ds
                  else if x = 0x78 \<or> x = 0x58 then digitsInBase 16 ds
                  else None)
          else None
      | _ \<Rightarrow> None)"

definition stringToNumber :: "platform \<Rightarrow> jsstring \<Rightarrow> jsnum" where
  "stringToNumber pf s =
     (let t = trimEnd (trimStart s)
      in if t = [] then Fin 0
         else (case nonDecimalIntegerLiteral pf t of
                 Some n \<Rightarrow> n
               | None \<Rightarrow>
                   (case strDecimalLiteral pf t of
                      None \<Rightarrow> NaN
                    | Some (n, r) \<Rightarrow> if r = [] then n else NaN)))"

text \<open>\<^verbatim>\<open>Number(value)\<close>\<close>

fun toNumber :: "platform \<Rightarrow> jsval \<Rightarrow> error + jsnum" where
  "toNumber pf JUndefined = Inr NaN"
| "toNumber pf JNull = Inr (Fin 0)"
| "toNumber pf (JBool b) = Inr (Fin (if b then 1 else 0))"
| "toNumber pf (JNum n) = Inr n"
| "toNumber pf (JStr s) = Inr (stringToNumber pf s)"
| "toNumber pf v = bindE (toStr pf v) (\<lambda>s. Inr (stringToNumber pf s))"

text \<open>A \<^verbatim>\<open>Date\<close> object, given by the Number it was constructed from.\<close>

datatype date = Date jsnum

subsection \<open>The classes and their constructors\<close>

text \<open>
  Each class is a datatype whose constructor takes the fields in the order the class assigns
  them; a field holds the value assigned, a Number being \<open>JNum\<close>. The function
  \<open>new_C\<close> is the body of \<^verbatim>\<open>new C(...)\<close>.
\<close>

datatype Balance = Balance (balance: jsval) (responseTime: date)

definition new_Balance :: "platform \<Rightarrow> jsval \<Rightarrow> jsval \<Rightarrow> error + Balance" where
  "new_Balance pf balance' responseTime' =
     bindE (parseFloat pf balance') (\<lambda>b.
     bindE (toNumber pf responseTime') (\<lambda>t.
       Inr (Balance (JNum b) (Date t))))"

datatype PaymentRequest =
  PaymentRequest (requesterUsername: jsval) (requestId: jsval) (requestTime: jsval)
    (amount: jsval) (referenceNo: jsval) (responseTime: date)

definition new_PaymentRequest ::
  "platform \<Rightarrow> jsval \<Rightarrow> jsval \<Rightarrow> jsval \<Rightarrow> jsval \<Rightarrow> jsval \<Rightarrow> jsval \<Rightarrow> error + PaymentRequest" where
  "new_PaymentRequest pf requesterUsername' requestId' requestTime' amount' referenceNo'
       responseTime' =
     bindE (parseFloat pf amount') (\<lambda>a.
     bindE (toNumber pf responseTime') (\<lambda>t.
       Inr (PaymentRequest requesterUsername' requestId' requestTime' (JNum a) referenceNo'
              (Date t))))"

datatype PaymentStatus =
  PaymentStatus (requestId: jsval) (transactionId: jsval) (amount: jsval)
    (paymentTimestamp: jsval) (referenceNo: jsval) (description: jsval) (isPaid: jsval)
    (responseTime: date)

definition new_PaymentStatus ::
  "platform \<Rightarrow> jsval \<Rightarrow> jsval \<Rightarrow> jsval \<Rightarrow> jsval \<Rightarrow> jsval \<Rightarrow> jsval \<Rightarrow> jsval \<Rightarrow> jsval
     \<Rightarrow> error + PaymentStatus" where
  "new_PaymentStatus pf requestId' transactionId' amount' paymentTimestamp' referenceNo'
       description' isPaid' responseTime' =
     bindE (parseFloat pf amount') (\<lambda>a.
     bindE (toNumber pf responseTime') (\<lambda>t.
       Inr (PaymentStatus requestId' transactionId' (JNum a) paymentTimestamp' referenceNo'
              description' isPaid' (Date t))))"

datatype SendMoneyResult =
  SendMoneyResult (amount: jsval) (senderFee: jsval) (transactionId: jsval) (oldBalance: jsval)
    (newBalance: jsval) (timestamp: jsval) (referenceNo: jsval) (responseTime: date)

definition new_SendMoneyResult ::
  "platform \<Rightarrow> jsval \<Rightarrow> jsval \<Rightarrow> jsval \<Rightarrow> jsval \<Rightarrow> jsval \<Rightarrow> jsval \<Rightarrow> jsval \<Rightarrow> jsval
     \<Rightarrow> error + SendMoneyResult" where
  "new_SendMoneyResult pf amount' senderFee' transactionId' oldBalance' newBalance' timestamp'
       referenceNo' responseTime' =
     bindE (parseFloat pf amount') (\<lambda>a.
     bindE (parseFloat pf senderFee') (\<lambda>f.
     bindE (parseFloat pf oldBalance') (\<lambda>ob.
     bindE (parseFloat pf newBalance') (\<lambda>nb.
     bindE (toNumber pf responseTime') (\<lambda>t.
       Inr (SendMoneyResult (JNum a) (JNum f) transactionId' (JNum ob) (JNum nb) timestamp'
              referenceNo' (Date t)))))))"

datatype StatementTransaction =
  StatementTransaction (transactionId: jsval) (datetime: jsval) (timestamp: jsval)
    (description: jsval) (amount: jsval) (balance: jsval) (referenceNo: jsval)
    (opTypeId: jsval) (status: jsval) (createdAt: jsval)

text \<open>\<^verbatim>\<open>x !== undefined && x !== null ? parseFloat(x) : null\<close>\<close>

definition parseFloatOrNull :: "platform \<Rightarrow> jsval \<Rightarrow> error + jsval" where
  "parseFloatOrNull pf x =
     (if x \<noteq> JUndefined \<and> x \<noteq> JNull then bindE (parseFloat pf x) (\<lambda>n. Inr (JNum n))
      else Inr JNull)"

definition new_StatementTransaction ::
  "platform \<Rightarrow> jsval \<Rightarrow> jsval \<Rightarrow> jsval \<Rightarrow> jsval \<Rightarrow> jsval \<Rightarrow> jsval \<Rightarrow> jsval \<Rightarrow> jsval \<Rightarrow> jsval
     \<Rightarrow> jsval \<Rightarrow> error + StatementTransaction" where
  "new_StatementTransaction pf transactionId' datetime' timestamp' description' amount' balance'
       referenceNo' opTypeId' status' createdAt' =
     bindE (parseFloatOrNull pf amount') (\<lambda>a.
     bindE (parseFloatOrNull pf balance') (\<lambda>b.
       Inr (StatementTransaction transactionId' datetime' timestamp' description' a b
              referenceNo' opTypeId' status' createdAt')))"

datatype Statement =
  Statement (availableBalance: jsval) (outstandingCredit: jsval) (outstandingDebit: jsval)
    (dayBalance: jsval) (dayTotalIn: jsval) (dayTotalOut: jsval) (responseTime: date)
    (dayStatement: "StatementTransaction list")

definition new_Statement ::
  "platform \<Rightarrow> jsval \<Rightarrow> jsval \<Rightarrow> jsval \<Rightarrow> jsval \<Rightarrow> jsval \<Rightarrow> jsval \<Rightarrow> jsval
     \<Rightarrow> StatementTransaction list \<Rightarrow> error + Statement" where
  "new_Statement pf availableBalance' outstandingCredit' outstandingDebit' dayBalance'
       dayTotalIn' dayTotalOut' responseTime' dayStatement' =
     bindE (parseFloat pf availableBalance') (\<lambda>ab.
     bindE (parseFloat pf outstandingCredit') (\<lambda>oc.
     bindE (parseFloat pf outstandingDebit') (\<lambda>od.
     bindE (parseFloat pf dayBalance') (\<lambda>db.
     bindE (parseFloat pf dayTotalIn') (\<lambda>ti.
     bindE (parseFloat pf dayTotalOut') (\<lambda>to.
     bindE (toNumber pf responseTime') (\<lambda>t.
       Inr (Statement (JNum ab) (JNum oc) (JNum od) (JNum db) (JNum ti) (JNum to) (Date t)
              dayStatement'))))))))"

datatype WalletCheck =
  WalletCheck (exists: jsval) (walletGatewayId: jsval) (walletName: jsval)
    (userAccountName: jsval) (canReceiveMoney: jsval) (responseTime: date)

definition new_WalletCheck ::
  "platform \<Rightarrow> jsval \<Rightarrow> jsval \<Rightarrow> jsval \<Rightarrow> jsval \<Rightarrow> jsval \<Rightarrow> jsval \<Rightarrow> error + WalletCheck" where
  "new_WalletCheck pf exists' walletGatewayId' walletName' userAccountName' canReceiveMoney'
       responseTime' =
     bindE (toNumber pf responseTime') (\<lambda>t.
       Inr (WalletCheck exists' walletGatewayId' walletName' userAccountName' canReceiveMoney'
              (Date t)))"

datatype OutstandingTransaction =
  OutstandingTransaction (transactionId: jsval) (datetime: jsval) (timestamp: jsval)
    (description: jsval) (amount: jsval) (balance: jsval) (referenceNo: jsval)
    (opTypeId: jsval) (status: jsval) (createdAt: jsval)

definition new_OutstandingTransaction ::
  "platform \<Rightarrow> jsval \<Rightarrow> jsval \<Rightarrow> jsval \<Rightarrow> jsval \<Rightarrow> jsval \<Rightarrow> jsval \<Rightarrow> jsval \<Rightarrow> jsval \<Rightarrow> jsval
     \<Rightarrow> jsval \<Rightarrow> error + OutstandingTransaction" where
  "new_OutstandingTransaction pf transactionId' datetime' timestamp' description' amount'
       balance' referenceNo' opTypeId' status' createdAt' =
     bindE (parseFloatOrNull pf amount') (\<lambda>a.
     bindE (parseFloatOrNull pf balance') (\<lambda>b.
       Inr (OutstandingTransaction transactionId' datetime' timestamp' description' a b
              referenceNo' opTypeId' status' createdAt')))"

datatype OutstandingTransactions =
  OutstandingTransactions (outstandingCredit: jsval) (outstandingDebit: jsval)
    (responseTime: date) (outstandingTransactions: "OutstandingTransaction list")

definition new_OutstandingTransactions ::
  "platform \<Rightarrow> jsval \<Rightarrow> jsval \<Rightarrow> jsval \<Rightarrow> OutstandingTransaction list
     \<Rightarrow> error + OutstandingTransactions" where
  "new_OutstandingTransactions pf outstandingCredit' outstandingDebit' responseTime'
       outstandingTransactions' =
     bindE (parseFloat pf outstandingCredit') (\<lambda>oc.
     bindE (parseFloat pf outstandingDebit') (\<lambda>od.
     bindE (toNumber pf responseTime') (\<lambda>t.
       Inr (OutstandingTransactions (JNum oc) (JNum od) (Date t) outstandingTransactions'))))"

section \<open>The seven operations\<close>

text \<open>
  \<^verbatim>\<open>data.name\<close> for a \<^verbatim>\<open>data\<close> that is neither \<^verbatim>\<open>undefined\<close> nor \<^verbatim>\<open>null\<close>, and the object
  literal \<^verbatim>\<open>{ n1: data.n1, n2: data.n2, ... }\<close> handed to \<^verbatim>\<open>verifyResponse\<close>.
\<close>

definition field :: "jsval \<Rightarrow> string \<Rightarrow> jsval" where
  "field data n = propOf data (str n)"

definition pick :: "jsval \<Rightarrow> string list \<Rightarrow> jsobject" where
  "pick data names = map (\<lambda>n. (str n, field data n)) names"

text \<open>\<^verbatim>\<open>Date.now().toString()\<close> and \<^verbatim>\<open>amount.toString()\<close>\<close>

definition timestampNow :: "platform \<Rightarrow> jsval" where
  "timestampNow pf = JStr (intToString (dateNow pf))"

definition callToString :: "platform \<Rightarrow> jsval \<Rightarrow> error + jsstring" where
  "callToString pf v = (if v = JUndefined \<or> v = JNull then Inl TypeError else toStr pf v)"

definition getBalance :: "platform \<Rightarrow> GPayApiClient \<Rightarrow> error + Balance" where
  "getBalance pf this =
     bindE (sendRequest pf this (str ''/info/balance'')
              [(str ''request_timestamp'', timestampNow pf)]) (\<lambda>result.
     let data = field (response result) ''data'' in
     if data = JUndefined \<or> data = JNull then Inl TypeError
     else bindE (verifyResponse pf this (headers result)
                   (pick data [''balance'', ''response_timestamp''])) (\<lambda>_.
          new_Balance pf (field data ''balance'') (field data ''response_timestamp'')))"

definition createPaymentRequest ::
  "platform \<Rightarrow> GPayApiClient \<Rightarrow> jsval \<Rightarrow> jsval \<Rightarrow> jsval \<Rightarrow> error + PaymentRequest" where
  "createPaymentRequest pf this amount' referenceNo' description' =
     bindE (callToString pf amount') (\<lambda>a.
     bindE (sendRequest pf this (str ''/payment/create-payment-request'')
              [(str ''amount'', JStr a),
               (str ''reference_no'', referenceNo'),
               (str ''description'', description'),
               (str ''request_timestamp'', timestampNow pf)]) (\<lambda>result.
     let data = field (response result) ''data'' in
     if data = JUndefined \<or> data = JNull then Inl TypeError
     else bindE (verifyResponse pf this (headers result)
                   (pick data [''requester_username'', ''request_id'', ''request_time'',
                               ''amount'', ''reference_no'', ''response_timestamp''])) (\<lambda>_.
          new_PaymentRequest pf (field data ''requester_username'') (field data ''request_id'')
            (field data ''request_time'') (field data ''amount'') (field data ''reference_no'')
            (field data ''response_timestamp''))))"

definition checkPaymentStatus ::
  "platform \<Rightarrow> GPayApiClient \<Rightarrow> jsval \<Rightarrow> error + PaymentStatus" where
  "checkPaymentStatus pf this requestId' =
     bindE (sendRequest pf this (str ''/payment/check-payment-status'')
              [(str ''request_id'', requestId'),
               (str ''request_timestamp'', timestampNow pf)]) (\<lambda>result.
     let data = field (response result) ''data'' in
     if data = JUndefined \<or> data = JNull then Inl TypeError
     else bindE (verifyResponse pf this (headers result)
                   (pick data [''request_id'', ''transaction_id'', ''amount'',
                               ''payment_timestamp'', ''reference_no'', ''description'',
                               ''is_paid'', ''response_timestamp''])) (\<lambda>_.
          new_PaymentStatus pf (field data ''request_id'') (field data ''transaction_id'')
            (field data ''amount'') (field data ''payment_timestamp'')
            (field data ''reference_no'') (field data ''description'') (field data ''is_paid'')
            (field data ''response_timestamp'')))"

definition sendMoney ::
  "platform \<Rightarrow> GPayApiClient \<Rightarrow> jsval \<Rightarrow> jsval \<Rightarrow> jsval \<Rightarrow> jsval \<Rightarrow> error + SendMoneyResult" where
  "sendMoney pf this amount' walletGatewayId' referenceNo' description' =
     bindE (callToString pf amount') (\<lambda>a.
     bindE (sendRequest pf this (str ''/payment/send-money'')
              [(str ''amount'', JStr a),
               (str ''wallet_gateway_id'', walletGatewayId'),
               (str ''reference_no'', referenceNo'),
               (str ''description'', description'),
               (str ''request_timestamp'', timestampNow pf)]) (\<lambda>result.
     let data = field (response result) ''data'' in
     if data = JUndefined \<or> data = JNull then Inl TypeError
     else bindE (verifyResponse pf this (headers result)
                   (pick data [''amount'', ''sender_fee'', ''transaction_id'', ''old_balance'',
                               ''new_balance'', ''timestamp'', ''reference_no'',
                               ''response_timestamp''])) (\<lambda>_.
          new_SendMoneyResult pf (field data ''amount'') (field data ''sender_fee'')
            (field data ''transaction_id'') (field data ''old_balance'')
            (field data ''new_balance'') (field data ''timestamp'') (field data ''reference_no'')
            (field data ''response_timestamp''))))"

text \<open>The callback of \<^verbatim>\<open>data.day_statement.map\<close>, applied to one element \<^verbatim>\<open>tx\<close>.\<close>

definition statementRow :: "platform \<Rightarrow> jsval \<Rightarrow> error + StatementTransaction" where
  "statementRow pf tx =
     (if tx = JUndefined \<or> tx = JNull then Inl TypeError
      else new_StatementTransaction pf (field tx ''transaction_id'') (field tx ''datetime'')
             (field tx ''timestamp'') (field tx ''description'') (field tx ''amount'')
             (field tx ''balance'') (field tx ''reference_no'') (field tx ''op_type_id'')
             (field tx ''status'') (field tx ''created_at''))"

definition getStatement :: "platform \<Rightarrow> GPayApiClient \<Rightarrow> jsval \<Rightarrow> error + Statement" where
  "getStatement pf this date' =
     bindE (sendRequest pf this (str ''/info/statement'')
              [(str ''date'', date'),
               (str ''request_timestamp'', timestampNow pf)]) (\<lambda>result.
     let data = field (response result) ''data'' in
     if data = JUndefined \<or> data = JNull then Inl TypeError
     else bindE (verifyResponse pf this (headers result)
                   (pick data [''available_balance'', ''outstanding_credit'',
                               ''outstanding_debit'', ''day_balance'', ''day_total_in'',
                               ''day_total_out'', ''response_timestamp''])) (\<lambda>_.
          bindE (case field data ''day_statement'' of
                   JArr txs \<Rightarrow> mapE (statementRow pf) txs
                 | _ \<Rightarrow> Inr []) (\<lambda>dayStatement'.
          new_Statement pf (field data ''available_balance'') (field data ''outstanding_credit'')
            (field data ''outstanding_debit'') (field data ''day_balance'')
            (field data ''day_total_in'') (field data ''day_total_out'')
            (field data ''response_timestamp'') dayStatement')))"

definition checkWallet :: "platform \<Rightarrow> GPayApiClient \<Rightarrow> jsval \<Rightarrow> error + WalletCheck" where
  "checkWallet pf this walletGatewayId' =
     bindE (sendRequest pf this (str ''/info/check-wallet'')
              [(str ''wallet_gateway_id'', walletGatewayId'),
               (str ''request_timestamp'', timestampNow pf)]) (\<lambda>result.
     let data = field (response result) ''data'' in
     if data = JUndefined \<or> data = JNull then Inl TypeError
     else bindE (verifyResponse pf this (headers result)
                   (pick data [''exists'', ''wallet_gateway_id'', ''wallet_name'',
                               ''user_account_name'', ''can_receive_money'',
                               ''response_timestamp''])) (\<lambda>_.
          new_WalletCheck pf (field data ''exists'') (field data ''wallet_gateway_id'')
            (field data ''wallet_name'') (field data ''user_account_name'')
            (field data ''can_receive_money'') (field data ''response_timestamp'')))"

definition outstandingRow :: "platform \<Rightarrow> jsval \<Rightarrow> error + OutstandingTransaction" where
  "outstandingRow pf tx =
     (if tx = JUndefined \<or> tx = JNull then Inl TypeError
      else new_OutstandingTransaction pf (field tx ''transaction_id'') (field tx ''datetime'')
             (field tx ''timestamp'') (field tx ''description'') (field tx ''amount'')
             (field tx ''balance'') (field tx ''reference_no'') (field tx ''op_type_id'')
             (field tx ''status'') (field tx ''created_at''))"

definition getOutstandingTransactions ::
  "platform \<Rightarrow> GPayApiClient \<Rightarrow> error + OutstandingTransactions" where
  "getOutstandingTransactions pf this =
     bindE (sendRequest pf this (str ''/info/outstanding-transactions'')
              [(str ''request_timestamp'', timestampNow pf)]) (\<lambda>result.
     let data = field (response result) ''data'' in
     if data = JUndefined \<or> data = JNull then Inl TypeError
     else bindE (verifyResponse pf this (headers result)
                   (pick data [''outstanding_credit'', ''outstanding_debit'',
                               ''response_timestamp''])) (\<lambda>_.
          bindE (case field data ''outstanding_transactions'' of
                   JArr txs \<Rightarrow> mapE (outstandingRow pf) txs
                 | _ \<Rightarrow> Inr []) (\<lambda>outstandingTransactions'.
          new_OutstandingTransactions pf (field data ''outstanding_credit'')
            (field data ''outstanding_debit'') (field data ''response_timestamp'')
            outstandingTransactions')))"

subsection \<open>The operations as one family\<close>

text \<open>
  The seven methods are separate functions of the class. To speak of all of them at once, an
  operation with its arguments is a value, \<open>perform\<close> calls the method it names, and the
  path, the request parameters and the signed response fields of each are tabulated as the
  interface lists them.
\<close>

datatype operation =
    GetBalance
  | CreatePaymentRequest jsval jsval jsval
  | CheckPaymentStatus jsval
  | SendMoney jsval jsval jsval jsval
  | GetStatement jsval
  | CheckWallet jsval
  | GetOutstandingTransactions

datatype resultRecord =
    ABalance Balance
  | APaymentRequest PaymentRequest
  | APaymentStatus PaymentStatus
  | ASendMoneyResult SendMoneyResult
  | AStatement Statement
  | AWalletCheck WalletCheck
  | AnOutstandingTransactions OutstandingTransactions

fun perform :: "platform \<Rightarrow> GPayApiClient \<Rightarrow> operation \<Rightarrow> error + resultRecord" where
  "perform pf this GetBalance = bindE (getBalance pf this) (\<lambda>r. Inr (ABalance r))"
| "perform pf this (CreatePaymentRequest a r d) =
     bindE (createPaymentRequest pf this a r d) (\<lambda>r. Inr (APaymentRequest r))"
| "perform pf this (CheckPaymentStatus i) =
     bindE (checkPaymentStatus pf this i) (\<lambda>r. Inr (APaymentStatus r))"
| "perform pf this (SendMoney a w r d) =
     bindE (sendMoney pf this a w r d) (\<lambda>r. Inr (ASendMoneyResult r))"
| "perform pf this (GetStatement d) = bindE (getStatement pf this d) (\<lambda>r. Inr (AStatement r))"
| "perform pf this (CheckWallet w) = bindE (checkWallet pf this w) (\<lambda>r. Inr (AWalletCheck r))"
| "perform pf this GetOutstandingTransactions =
     bindE (getOutstandingTransactions pf this) (\<lambda>r. Inr (AnOutstandingTransactions r))"

fun endpointOf :: "operation \<Rightarrow> jsstring" where
  "endpointOf GetBalance = str ''/info/balance''"
| "endpointOf (CreatePaymentRequest a r d) = str ''/payment/create-payment-request''"
| "endpointOf (CheckPaymentStatus i) = str ''/payment/check-payment-status''"
| "endpointOf (SendMoney a w r d) = str ''/payment/send-money''"
| "endpointOf (GetStatement d) = str ''/info/statement''"
| "endpointOf (CheckWallet w) = str ''/info/check-wallet''"
| "endpointOf GetOutstandingTransactions = str ''/info/outstanding-transactions''"

fun requestParameters :: "platform \<Rightarrow> operation \<Rightarrow> error + jsobject" where
  "requestParameters pf GetBalance = Inr [(str ''request_timestamp'', timestampNow pf)]"
| "requestParameters pf (CreatePaymentRequest a r d) =
     bindE (callToString pf a) (\<lambda>s.
       Inr [(str ''amount'', JStr s), (str ''reference_no'', r), (str ''description'', d),
            (str ''request_timestamp'', timestampNow pf)])"
| "requestParameters pf (CheckPaymentStatus i) =
     Inr [(str ''request_id'', i), (str ''request_timestamp'', timestampNow pf)]"
| "requestParameters pf (SendMoney a w r d) =
     bindE (callToString pf a) (\<lambda>s.
       Inr [(str ''amount'', JStr s), (str ''wallet_gateway_id'', w), (str ''reference_no'', r),
            (str ''description'', d), (str ''request_timestamp'', timestampNow pf)])"
| "requestParameters pf (GetStatement d) =
     Inr [(str ''date'', d), (str ''request_timestamp'', timestampNow pf)]"
| "requestParameters pf (CheckWallet w) =
     Inr [(str ''wallet_gateway_id'', w), (str ''request_timestamp'', timestampNow pf)]"
| "requestParameters pf GetOutstandingTransactions =
     Inr [(str ''request_timestamp'', timestampNow pf)]"

fun signedResponseFields :: "operation \<Rightarrow> string list" where
  "signedResponseFields GetBalance = [''balance'', ''response_timestamp'']"
| "signedResponseFields (CreatePaymentRequest a r d) =
     [''requester_username'', ''request_id'', ''request_time'', ''amount'', ''reference_no'',
      ''response_timestamp'']"
| "signedResponseFields (CheckPaymentStatus i) =
     [''request_id'', ''transaction_id'', ''amount'', ''payment_timestamp'', ''reference_no'',
      ''description'', ''is_paid'', ''response_timestamp'']"
| "signedResponseFields (SendMoney a w r d) =
     [''amount'', ''sender_fee'', ''transaction_id'', ''old_balance'', ''new_balance'',
      ''timestamp'', ''reference_no'', ''response_timestamp'']"
| "signedResponseFields (GetStatement d) =
     [''available_balance'', ''outstanding_credit'', ''outstanding_debit'', ''day_balance'',
      ''day_total_in'', ''day_total_out'', ''response_timestamp'']"
| "signedResponseFields (CheckWallet w) =
     [''exists'', ''wallet_gateway_id'', ''wallet_name'', ''user_account_name'',
      ''can_receive_money'', ''response_timestamp'']"
| "signedResponseFields GetOutstandingTransactions =
     [''outstanding_credit'', ''outstanding_debit'', ''response_timestamp'']"

text \<open>
  The record of an operation as a function of the field map that was verified, and of the
  transaction rows of the two list operations, which are not among the signed fields.
\<close>

definition verified :: "jsobject \<Rightarrow> string \<Rightarrow> jsval" where
  "verified fs n = objGet fs (str n)"

fun recordOfVerified ::
  "platform \<Rightarrow> operation \<Rightarrow> jsobject \<Rightarrow> jsval \<Rightarrow> error + resultRecord" where
  "recordOfVerified pf GetBalance fs rows =
     bindE (new_Balance pf (verified fs ''balance'') (verified fs ''response_timestamp''))
       (\<lambda>r. Inr (ABalance r))"
| "recordOfVerified pf (CreatePaymentRequest a r d) fs rows =
     bindE (new_PaymentRequest pf (verified fs ''requester_username'')
              (verified fs ''request_id'') (verified fs ''request_time'')
              (verified fs ''amount'') (verified fs ''reference_no'')
              (verified fs ''response_timestamp''))
       (\<lambda>r. Inr (APaymentRequest r))"
| "recordOfVerified pf (CheckPaymentStatus i) fs rows =
     bindE (new_PaymentStatus pf (verified fs ''request_id'') (verified fs ''transaction_id'')
              (verified fs ''amount'') (verified fs ''payment_timestamp'')
              (verified fs ''reference_no'') (verified fs ''description'')
              (verified fs ''is_paid'') (verified fs ''response_timestamp''))
       (\<lambda>r. Inr (APaymentStatus r))"
| "recordOfVerified pf (SendMoney a w r d) fs rows =
     bindE (new_SendMoneyResult pf (verified fs ''amount'') (verified fs ''sender_fee'')
              (verified fs ''transaction_id'') (verified fs ''old_balance'')
              (verified fs ''new_balance'') (verified fs ''timestamp'')
              (verified fs ''reference_no'') (verified fs ''response_timestamp''))
       (\<lambda>r. Inr (ASendMoneyResult r))"
| "recordOfVerified pf (GetStatement d) fs rows =
     bindE (case rows of JArr txs \<Rightarrow> mapE (statementRow pf) txs | _ \<Rightarrow> Inr []) (\<lambda>txs.
     bindE (new_Statement pf (verified fs ''available_balance'')
              (verified fs ''outstanding_credit'') (verified fs ''outstanding_debit'')
              (verified fs ''day_balance'') (verified fs ''day_total_in'')
              (verified fs ''day_total_out'') (verified fs ''response_timestamp'') txs)
       (\<lambda>r. Inr (AStatement r)))"
| "recordOfVerified pf (CheckWallet w) fs rows =
     bindE (new_WalletCheck pf (verified fs ''exists'') (verified fs ''wallet_gateway_id'')
              (verified fs ''wallet_name'') (verified fs ''user_account_name'')
              (verified fs ''can_receive_money'') (verified fs ''response_timestamp''))
       (\<lambda>r. Inr (AWalletCheck r))"
| "recordOfVerified pf GetOutstandingTransactions fs rows =
     bindE (case rows of JArr txs \<Rightarrow> mapE (outstandingRow pf) txs | _ \<Rightarrow> Inr []) (\<lambda>txs.
     bindE (new_OutstandingTransactions pf (verified fs ''outstanding_credit'')
              (verified fs ''outstanding_debit'') (verified fs ''response_timestamp'') txs)
       (\<lambda>r. Inr (AnOutstandingTransactions r)))"

fun unsignedRows :: "operation \<Rightarrow> jsval \<Rightarrow> jsval" where
  "unsignedRows (GetStatement d) data = field data ''day_statement''"
| "unsignedRows GetOutstandingTransactions data = field data ''outstanding_transactions''"
| "unsignedRows op data = JUndefined"

section \<open>The specification's wording and a concrete platform\<close>

text \<open>
  A parameter map, in the data model, maps its keys to scalars: strings, numbers, booleans,
  \<^verbatim>\<open>null\<close>, and \<^verbatim>\<open>undefined\<close> for an absent value.
\<close>

fun isScalar :: "jsval \<Rightarrow> bool" where
  "isScalar (JObj ps) = False"
| "isScalar (JArr xs) = False"
| "isScalar v = True"

text \<open>
  The code points of a string (a high surrogate followed by a low one is one code point), and
  the canonical query string as the specification words it: the keys sorted ascending by
  code point, each entry \<^verbatim>\<open>key=value\<close>, joined by \<^verbatim>\<open>&\<close>.
\<close>

fun codePoints :: "jsstring \<Rightarrow> nat list" where
  "codePoints [] = []"
| "codePoints [c] = [unat c]"
| "codePoints (h # l # r) =
     (if 0xD800 \<le> h \<and> h \<le> 0xDBFF \<and> 0xDC00 \<le> l \<and> l \<le> 0xDFFF
      then (0x10000 + (unat h - 0xD800) * 0x400 + (unat l - 0xDC00)) # codePoints r
      else unat h # codePoints (l # r))"

definition specQueryString :: "platform \<Rightarrow> jsobject \<Rightarrow> error + jsstring" where
  "specQueryString pf parameters =
     bindE (mapE (entryString pf)
              (map (\<lambda>k. (k, objGet parameters k)) (sort_key codePoints (map fst parameters))))
       (\<lambda>parts. Inr (joinWith (str ''&'') parts))"

text \<open>
  A platform and a client to evaluate on. The digest is a stand-in with the type of
  HMAC-SHA256; the reply is a balance of 100 signed with salt \<^verbatim>\<open>S\<close> for the client's
  password \<^verbatim>\<open>p\<close> and secret key \<^verbatim>\<open>k\<close>.
\<close>

definition exampleHmac :: "jsstring \<Rightarrow> jsstring \<Rightarrow> 256 word" where
  "exampleHmac key message = of_nat (foldl (\<lambda>a c. 31 * a + unat c) 7 (key @ 0 # message))"

definition exampleClient :: GPayApiClient where
  "exampleClient =
     \<lparr> apiKey = str ''api-key'', secretKey = str ''k'', password = str ''p'',
       baseUrl = BaseUrl_STAGING, language = str ''en'' \<rparr>"

definition exampleBody :: jsval where
  "exampleBody =
     JObj [(str ''data'',
            JObj [(str ''balance'', JNum (Fin 100)),
                  (str ''response_timestamp'', JNum (Fin 1700000000000))])]"

definition exampleSignature :: jsstring where
  "exampleSignature =
     base64 (bytes32 (exampleHmac (str ''k'')
                        (str ''Spbalance=100&response_timestamp=1700000000000'')))"

definition examplePlatform :: platform where
  "examplePlatform =
     \<lparr> hmacSha256 = exampleHmac,
       randomBytes32 = 0x0123456789ABCDEF,
       dateNow = 1700000000000,
       fetch = (\<lambda>req. Response [(str ''x-signature-hash'', exampleSignature),
                                (str ''x-signature-salt'', str ''S'')]
                          (Some exampleBody) 200),
       roundNumber = Fin,
       numberToString = (\<lambda>r. str ''?'') \<rparr>"

text \<open>
  The same platform answering with an error envelope whose code is the number 0, and
  answering with the balance under a signature that is not the right one.
\<close>

definition refusingPlatform :: platform where
  "refusingPlatform =
     examplePlatform
       \<lparr> fetch := (\<lambda>req. Response []
                     (Some (JObj [(str ''error'',
                                   JObj [(str ''code'', JNum (Fin 0)),
                                         (str ''message'', JStr (str ''Denied''))])]))
                     400) \<rparr>"

definition forgingPlatform :: platform where
  "forgingPlatform =
     examplePlatform
       \<lparr> fetch := (\<lambda>req. Response [(str ''x-signature-hash'', str ''AAAA''),
                                    (str ''x-signature-salt'', str ''S'')]
                     (Some exampleBody) 200) \<rparr>"

text \<open>
  A platform whose server answers \<^verbatim>\<open>/info/statement\<close> with a fixed summary, signed over the
  seven summary fields with the salt \<^verbatim>\<open>S\<close>, and with the transaction rows \<open>rows\<close>.
\<close>

definition statementBody :: "jsval \<Rightarrow> jsval" where
  "statementBody rows =
     JObj [(str ''data'',
            JObj [(str ''available_balance'', JStr (str ''1'')),
                  (str ''outstanding_credit'', JStr (str ''0'')),
                  (str ''outstanding_debit'', JStr (str ''0'')),
                  (str ''day_balance'', JStr (str ''1'')),
                  (str ''day_total_in'', JStr (str ''0'')),
                  (str ''day_total_out'', JStr (str ''0'')),
                  (str ''response_timestamp'', JStr (str ''1700000000000'')),
                  (str ''day_statement'', rows)])]"

definition statementSignature :: jsstring where
  "statementSignature =
     base64 (bytes32 (exampleHmac (str ''k'')
       (str ''Spavailable_balance=1&day_balance=1&day_total_in=0&day_total_out=0&outstanding_credit=0&outstanding_debit=0&response_timestamp=1700000000000'')))"

definition statementPlatform :: "jsval \<Rightarrow> platform" where
  "statementPlatform rows =
     examplePlatform
       \<lparr> fetch := (\<lambda>req. Response [(str ''x-signature-hash'', statementSignature),
                                    (str ''x-signature-salt'', str ''S'')]
                     (Some (statementBody rows)) 200) \<rparr>"

text \<open>
  The same platform answering with an error envelope whose code is the object
  \<^verbatim>\<open>{"toString": null}\<close>, which has no string conversion.
\<close>

definition unprintablePlatform :: platform where
  "unprintablePlatform =
     examplePlatform
       \<lparr> fetch := (\<lambda>req. Response []
                     (Some (JObj [(str ''error'',
                                   JObj [(str ''code'', JObj [(str ''toString'', JNull)]),
                                         (str ''message'', JStr (str ''Denied''))])]))
                     400) \<rparr>"

section \<open>Auxiliary facts\<close>

lemma bindE_simps [simp]: "bindE (Inr x) f = f x" "bindE (Inl e) f = Inl e"
  by (simp_all add: bindE_def)

lemma bindE_eq_Inr: "bindE m f = Inr y \<longleftrightarrow> (\<exists>x. m = Inr x \<and> f x = Inr y)"
  by (cases m) simp_all

lemma examplePlatform_simps [simp]:
  "hmacSha256 examplePlatform = exampleHmac"
  "randomBytes32 examplePlatform = 0x0123456789ABCDEF"
  "dateNow examplePlatform = 1700000000000"
  "fetch examplePlatform req =
     Response [(str ''x-signature-hash'', exampleSignature), (str ''x-signature-salt'', str ''S'')]
       (Some exampleBody) 200"
  "roundNumber examplePlatform = Fin"
  "numberToString examplePlatform r = str ''?''"
  by (simp_all add: examplePlatform_def)

lemma exampleClient_simps [simp]:
  "apiKey exampleClient = str ''api-key''"
  "secretKey exampleClient = str ''k''"
  "password exampleClient = str ''p''"
  "baseUrl exampleClient = BaseUrl_STAGING"
  "language exampleClient = str ''en''"
  by (simp_all add: exampleClient_def)

text \<open>The definitions that evaluate a canonical query string on a concrete object.\<close>

lemmas eval_defs =
  queryString_def sortedParams_def ownKeys_def isArrayIndex_def isDigit_def str_def
  objSet_def objGet_def entries_def entryString_def numToString_def intToString_def
  natDigits.simps digitChar_def digitsValue_def isSafeInteger_def

lemmas header_names =
  str_def receivedHash_def receivedSalt_def objGet_def jsOr_def

subsection \<open>Salts and signatures are never empty\<close>

lemma base64_bytes32_nonempty [simp]: "base64 (bytes32 w) \<noteq> []"
  by (simp add: bytes32_def upt_conv_Cons)

lemma generateSalt_nonempty: "generateSalt pf \<noteq> []"
  by (simp add: generateSalt_def)

lemma generateVerificationHash_nonempty:
  "generateVerificationHash pf this tok ps = Inr h \<Longrightarrow> h \<noteq> []"
  by (auto simp: generateVerificationHash_def bindE_eq_Inr)

subsection \<open>Own keys and the sorted copy\<close>

lemma ownKeys_no_index:
  assumes "\<forall>k\<in>set (map fst obj). \<not> isArrayIndex k"
  shows "ownKeys obj = map fst obj"
proof -
  from assms have "filter isArrayIndex (map fst obj) = []"
    by (simp add: filter_empty_conv)
  moreover from assms have "filter (\<lambda>k. \<not> isArrayIndex k) (map fst obj) = map fst obj"
    by (simp add: filter_id_conv)
  ultimately show ?thesis by (simp add: ownKeys_def)
qed

lemma set_ownKeys [simp]: "set (ownKeys obj) = set (map fst obj)"
  by (auto simp: ownKeys_def)

lemma distinct_ownKeys: "distinct (map fst obj) \<Longrightarrow> distinct (ownKeys obj)"
  by (auto simp: ownKeys_def)

lemma fold_objSet_fresh:
  "distinct ks \<Longrightarrow> str ''__proto__'' \<notin> set ks \<Longrightarrow> set ks \<inter> set (map fst acc) = {} \<Longrightarrow>
   fold (\<lambda>k obj. objSet obj k (g k)) ks acc = acc @ map (\<lambda>k. (k, g k)) ks"
proof (induction ks arbitrary: acc)
  case Nil
  then show ?case by simp
next
  case (Cons k ks)
  have step: "objSet acc k (g k) = acc @ [(k, g k)]"
    using Cons.prems by (auto simp: objSet_def)
  have "fold (\<lambda>k obj. objSet obj k (g k)) ks (acc @ [(k, g k)])
        = (acc @ [(k, g k)]) @ map (\<lambda>k. (k, g k)) ks"
    using Cons.prems by (intro Cons.IH) auto
  then show ?case by (simp add: step)
qed

lemma objGet_tabulate: "k \<in> set ks \<Longrightarrow> objGet (map (\<lambda>k. (k, g k)) ks) k = g k"
  by (simp add: objGet_def map_of_map_restrict)

lemma entries_tabulate:
  assumes "\<forall>k\<in>set ks. \<not> isArrayIndex k"
  shows "entries (map (\<lambda>k. (k, g k)) ks) = map (\<lambda>k. (k, g k)) ks"
proof -
  have "ownKeys (map (\<lambda>k. (k, g k)) ks) = ks"
    using assms by (subst ownKeys_no_index) (auto simp: comp_def)
  then show ?thesis
    by (simp add: entries_def objGet_tabulate cong: map_cong)
qed

lemma sortedParams_plain:
  assumes "distinct (map fst ps)"
    and "\<forall>k\<in>set (map fst ps). \<not> isArrayIndex k \<and> k \<noteq> str ''__proto__''"
  shows "entries (sortedParams ps) = map (\<lambda>k. (k, objGet ps k)) (sort (map fst ps))"
proof -
  have keys: "ownKeys ps = map fst ps"
    using assms(2) by (intro ownKeys_no_index) blast
  have "sortedParams ps = map (\<lambda>k. (k, objGet ps k)) (sort (map fst ps))"
    unfolding sortedParams_def keys
    using assms by (subst fold_objSet_fresh) auto
  moreover have "\<forall>k\<in>set (sort (map fst ps)). \<not> isArrayIndex k"
    using assms(2) by auto
  ultimately show ?thesis by (simp add: entries_tabulate)
qed

lemma sortedParams_cong:
  assumes "distinct (map fst ps)" and "distinct (map fst qs)" and "set ps = set qs"
  shows "sortedParams ps = sortedParams qs"
proof -
  have "map_of ps = map_of qs"
    using assms by (simp add: map_of_inject_set)
  then have g: "objGet ps = objGet qs"
    by (simp add: objGet_def fun_eq_iff)
  have "set (map fst ps) = set (map fst qs)"
    using assms(3) by simp
  then have "sort (ownKeys ps) = sort (ownKeys qs)"
    using assms(1,2)
    by (intro sorted_distinct_set_unique) (simp_all add: distinct_ownKeys del: set_map)
  then show ?thesis by (simp add: sortedParams_def g)
qed

subsection \<open>Signing a map of scalars does not throw\<close>

lemma toStr_scalar: "isScalar v \<Longrightarrow> \<exists>s. toStr pf v = Inr s"
  by (cases v) simp_all

lemma entryString_scalar: "isScalar v \<Longrightarrow> \<exists>s. entryString pf (k, v) = Inr s"
  using toStr_scalar [of v pf] by (auto simp: entryString_def)

lemma mapE_total: "\<forall>x\<in>set xs. \<exists>y. f x = Inr y \<Longrightarrow> \<exists>ys. mapE f xs = Inr ys"
proof (induction xs)
  case Nil
  then show ?case by simp
next
  case (Cons x xs)
  then obtain y ys where "f x = Inr y" "mapE f xs = Inr ys"
    by auto
  then show ?case by simp
qed

lemma isScalar_objGet:
  assumes "\<forall>v\<in>snd ` set obj. isScalar v"
  shows "isScalar (objGet obj k)"
proof (cases "map_of obj k")
  case None
  then show ?thesis by (simp add: objGet_def)
next
  case (Some v)
  then have "(k, v) \<in> set obj" by (rule map_of_SomeD)
  then have "v \<in> snd ` set obj" by force
  with assms have "isScalar v" by blast
  with Some show ?thesis by (simp add: objGet_def)
qed

lemma isScalar_objSet:
  assumes "\<forall>u\<in>snd ` set obj. isScalar u" and "isScalar v"
  shows "\<forall>u\<in>snd ` set (objSet obj k v). isScalar u"
proof (cases "k = str ''__proto__''")
  case True
  with assms show ?thesis by (simp add: objSet_def)
next
  case False
  show ?thesis
  proof (cases "k \<in> set (map fst obj)")
    case True
    have "isScalar u"
      if "u \<in> snd ` set (map (\<lambda>(k', v'). if k' = k then (k', v) else (k', v')) obj)" for u
    proof -
      from that obtain k' v' where kv: "(k', v') \<in> set obj"
        and u: "u = snd (if k' = k then (k', v) else (k', v'))"
        by auto
      from kv have "v' \<in> snd ` set obj" by force
      with assms(1) have "isScalar v'" by blast
      with u assms(2) show ?thesis by (simp split: if_splits)
    qed
    with \<open>k \<noteq> str ''__proto__''\<close> True show ?thesis
      by (simp add: objSet_def)
  next
    case False
    with assms \<open>k \<noteq> str ''__proto__''\<close> show ?thesis
      by (simp add: objSet_def)
  qed
qed

lemma isScalar_fold_objSet:
  assumes "\<forall>k. isScalar (g k)"
  shows "\<forall>u\<in>snd ` set acc. isScalar u \<Longrightarrow>
         \<forall>u\<in>snd ` set (fold (\<lambda>key obj. objSet obj key (g key)) ks acc). isScalar u"
proof (induction ks arbitrary: acc)
  case Nil
  then show ?case by simp
next
  case (Cons k ks)
  have "\<forall>u\<in>snd ` set (objSet acc k (g k)). isScalar u"
    using Cons.prems assms by (intro isScalar_objSet) simp_all
  then have "\<forall>u\<in>snd ` set (fold (\<lambda>key obj. objSet obj key (g key)) ks (objSet acc k (g k))).
               isScalar u"
    by (rule Cons.IH)
  then show ?case by simp
qed

lemma queryString_scalar:
  assumes "\<forall>v\<in>snd ` set ps. isScalar v"
  shows "\<exists>qs. queryString pf ps = Inr qs"
proof -
  have "\<forall>k. isScalar (objGet ps k)"
    using assms by (simp add: isScalar_objGet)
  then have "\<forall>v\<in>snd ` set (sortedParams ps). isScalar v"
    unfolding sortedParams_def by (intro isScalar_fold_objSet) simp_all
  then have "isScalar (objGet (sortedParams ps) k)" for k
    by (rule isScalar_objGet)
  then have "\<forall>e\<in>set (entries (sortedParams ps)). \<exists>s. entryString pf e = Inr s"
    by (simp add: entries_def entryString_scalar)
  then obtain parts where "mapE (entryString pf) (entries (sortedParams ps)) = Inr parts"
    using mapE_total by blast
  then show ?thesis by (simp add: queryString_def)
qed

subsection \<open>The canonical query string of a map of scalars\<close>

lemma mapE_map_Inr: "\<forall>x\<in>set xs. f x = Inr (g x) \<Longrightarrow> mapE f xs = Inr (map g xs)"
  by (induction xs) simp_all

lemma entryString_scalar_text:
  "isScalar v \<Longrightarrow>
   entryString pf (k, v)
   = Inr (k @ str ''='' @
       (case v of
          JStr s \<Rightarrow> s
        | JBool b \<Rightarrow> (if b then str ''true'' else str ''false'')
        | JNum n \<Rightarrow> numToString pf n
        | _ \<Rightarrow> []))"
  by (cases v) (simp_all add: entryString_def)

lemma queryString_explicit:
  assumes "distinct (map fst ps)"
    and "\<forall>k\<in>set (map fst ps). \<not> isArrayIndex k \<and> k \<noteq> str ''__proto__''"
    and "\<forall>v\<in>snd ` set ps. isScalar v"
  shows "queryString pf ps
         = Inr (joinWith (str ''&'')
             (map (\<lambda>k. k @ str ''='' @
                     (case objGet ps k of
                        JStr s \<Rightarrow> s
                      | JBool b \<Rightarrow> (if b then str ''true'' else str ''false'')
                      | JNum n \<Rightarrow> numToString pf n
                      | _ \<Rightarrow> []))
                (sort (map fst ps))))"
proof -
  have "isScalar (objGet ps k)" for k
    using assms(3) by (rule isScalar_objGet)
  then have "mapE (entryString pf) (map (\<lambda>k. (k, objGet ps k)) (sort (map fst ps)))
        = Inr (map (\<lambda>e. fst e @ str ''='' @
                     (case snd e of
                        JStr s \<Rightarrow> s
                      | JBool b \<Rightarrow> (if b then str ''true'' else str ''false'')
                      | JNum n \<Rightarrow> numToString pf n
                      | _ \<Rightarrow> []))
                 (map (\<lambda>k. (k, objGet ps k)) (sort (map fst ps))))"
    by (intro mapE_map_Inr) (auto simp: entryString_scalar_text)
  then show ?thesis
    using sortedParams_plain [OF assms(1,2)]
    by (simp add: queryString_def comp_def)
qed

subsection \<open>Decimal numerals\<close>

lemma unat_digitChar: "d < 10 \<Longrightarrow> unat (digitChar d) = 48 + d"
  unfolding digitChar_def unat_of_nat by simp

lemma digitsValue_snoc: "digitsValue (ds @ [c]) = 10 * digitsValue ds + (unat c - 48)"
  by (simp add: digitsValue_def)

lemma digitsValue_natDigits: "digitsValue (natDigits n) = n"
proof (induction n rule: natDigits.induct)
  case (1 n)
  show ?case
  proof (cases "n < 10")
    case True
    then show ?thesis
      by (subst natDigits.simps) (simp add: digitsValue_def unat_digitChar)
  next
    case False
    then have "digitsValue (natDigits (n div 10)) = n div 10"
      by (rule 1)
    with False show ?thesis
      by (subst natDigits.simps) (simp add: digitsValue_snoc unat_digitChar)
  qed
qed

lemma isDigit_digitChar: "d < 10 \<Longrightarrow> isDigit (digitChar d)"
proof -
  assume "d < 10"
  then have "unat (digitChar d) = 48 + d"
    by (rule unat_digitChar)
  with \<open>d < 10\<close> have "48 \<le> unat (digitChar d)" "unat (digitChar d) \<le> 57"
    by simp_all
  then show ?thesis
    by (simp add: isDigit_def word_le_nat_alt)
qed

lemma natDigits_digits: "list_all isDigit (natDigits n)"
proof (induction n rule: natDigits.induct)
  case (1 n)
  show ?case
  proof (cases "n < 10")
    case True
    then show ?thesis
      by (subst natDigits.simps) (simp add: isDigit_digitChar)
  next
    case False
    then have "list_all isDigit (natDigits (n div 10))"
      by (rule 1)
    with False show ?thesis
      by (subst natDigits.simps) (simp add: isDigit_digitChar)
  qed
qed

lemma natDigits_nonempty: "natDigits n \<noteq> []"
  by (subst natDigits.simps) simp

lemma digitChar_zero: "d < 10 \<Longrightarrow> digitChar d = 0x30 \<longleftrightarrow> d = 0"
proof -
  assume d: "d < 10"
  have "digitChar d = 0x30 \<longleftrightarrow> unat (digitChar d) = unat (0x30 :: 16 word)"
    by (simp only: word_unat_eq_iff)
  also have "\<dots> \<longleftrightarrow> d = 0"
    using unat_digitChar [OF d] by simp
  finally show ?thesis .
qed

lemma natDigits_canonical: "length (natDigits n) = 1 \<or> hd (natDigits n) \<noteq> 0x30"
proof (induction n rule: natDigits.induct)
  case (1 n)
  show ?case
  proof (cases "n < 10")
    case True
    then show ?thesis
      by (subst natDigits.simps) simp
  next
    case False
    then have ih: "length (natDigits (n div 10)) = 1 \<or> hd (natDigits (n div 10)) \<noteq> 0x30"
      by (rule 1)
    have hd: "hd (natDigits n) = hd (natDigits (n div 10))"
      using False natDigits_nonempty [of "n div 10"]
      by (subst natDigits.simps) simp
    show ?thesis
    proof (cases "n div 10 < 10")
      case True
      from False have "n div 10 \<noteq> 0" by simp
      with True have "hd (natDigits (n div 10)) \<noteq> 0x30"
        by (subst natDigits.simps) (simp add: digitChar_zero)
      with hd show ?thesis by simp
    next
      case F: False
      then have "length (natDigits (n div 10)) \<noteq> 1"
        by (subst natDigits.simps) (simp add: natDigits_nonempty)
      with ih hd show ?thesis by simp
    qed
  qed
qed

lemma numToString_integer:
  "\<bar>i\<bar> \<le> 2 ^ 53 \<Longrightarrow>
   numToString pf (Fin (of_int i))
   = (if i < 0 then 0x2D # natDigits (nat (- i)) else natDigits (nat i))"
proof -
  assume "\<bar>i\<bar> \<le> 2 ^ 53"
  then have "\<bar>(of_int i :: rat)\<bar> \<le> 2 ^ 53"
    by (metis of_int_abs of_int_le_iff of_int_numeral of_int_power)
  then show ?thesis
    by (simp add: numToString_def isSafeInteger_def intToString_def)
qed

subsection \<open>The bytes of a digest and their base64 text\<close>




subsection \<open>String conversion throws a \<^verbatim>\<open>TypeError\<close> or nothing\<close>

lemma toStr_error:
  "toStr pf v = Inl t \<Longrightarrow> t = TypeError"
  "joinElems pf vs = Inl t \<Longrightarrow> t = TypeError"
proof (induction pf v and pf vs arbitrary: t and t rule: toStr_joinElems.induct)
  case (9 pf x xs)
  show ?case
  proof (cases "x = JUndefined \<or> x = JNull")
    case True
    with "9.prems" have "xs \<noteq> []" and "joinElems pf xs = Inl t"
      by (auto split: if_splits simp: bindE_def split: sum.splits)
    then show ?thesis using "9.IH"(2) True by blast
  next
    case False
    show ?thesis
    proof (cases "toStr pf x")
      case (Inl e)
      with False "9.prems" have "e = t" by simp
      with Inl False "9.IH"(1) show ?thesis by blast
    next
      case (Inr s)
      with False "9.prems" have "xs \<noteq> []" and "joinElems pf xs = Inl t"
        by (auto split: if_splits simp: bindE_def split: sum.splits)
      then show ?thesis using "9.IH"(2) Inr False by blast
    qed
  qed
qed (auto split: if_splits)

subsection \<open>Worked instances\<close>

lemma queryString_balance:
  "queryString pf [(str ''balance'', JNum (Fin 100)),
                   (str ''response_timestamp'', JNum (Fin 1700000000000))]
   = Inr (str ''balance=100&response_timestamp=1700000000000'')"
  by (simp add: eval_defs)

lemma verifyResponse_missing:
  "\<not> truthy (receivedHash hs) \<or> \<not> truthy (receivedSalt hs) \<Longrightarrow>
   verifyResponse pf this hs fs = Inl MissingSignature"
  by (auto simp: verifyResponse_def)

lemma exampleSignature_nonempty [simp]: "exampleSignature \<noteq> []"
  by (simp add: exampleSignature_def)

lemma verify_example:
  "verifyResponse examplePlatform exampleClient
     [(str ''x-signature-hash'', JStr exampleSignature), (str ''x-signature-salt'', JStr (str ''S''))]
     [(str ''balance'', JNum (Fin 100)), (str ''response_timestamp'', JNum (Fin 1700000000000))]
   = Inr ()"
proof -
  let ?hs = "[(str ''x-signature-hash'', JStr exampleSignature),
              (str ''x-signature-salt'', JStr (str ''S''))]"
  have rh: "receivedHash ?hs = JStr exampleSignature"
    by (simp add: header_names)
  have rs: "receivedSalt ?hs = JStr (str ''S'')"
    by (simp add: header_names)
  have tok: "generateHashToken examplePlatform (JStr (str ''S'')) (str ''p'') = Inr (str ''Sp'')"
    by (simp add: generateHashToken_def str_def)
  have "generateVerificationHash examplePlatform exampleClient (str ''Sp'')
          [(str ''balance'', JNum (Fin 100)), (str ''response_timestamp'', JNum (Fin 1700000000000))]
        = Inr exampleSignature"
    by (simp add: generateVerificationHash_def queryString_balance exampleSignature_def)
       (simp add: str_def)
  then show ?thesis
    unfolding verifyResponse_def rh rs by (simp add: tok) (simp add: str_def)
qed

lemma sign_example:
  "generateVerificationHash examplePlatform exampleClient (str ''Sp'')
     [(str ''balance'', JNum (Fin 100)), (str ''response_timestamp'', JNum (Fin 1700000000000))]
   = Inr exampleSignature"
  by (simp add: generateVerificationHash_def queryString_balance exampleSignature_def)
     (simp add: str_def)

section \<open>Signing and verifying\<close>

text \<open>
  C1. Signing a parameter map and then verifying the same map against the salt and the
  signature that signing produced succeeds, for every parameter map, password, secret key,
  digest function and random draw. Signing a map of scalars always returns a signature; and
  whenever \<^verbatim>\<open>generateVerificationHash\<close> returns a signature \<open>h\<close> for the hash token of a
  generated salt, \<^verbatim>\<open>verifyResponse\<close> returns without error on headers carrying that salt and
  \<open>h\<close>: under the names \<^verbatim>\<open>sendRequest\<close> sends them with, under the lower-case names a
  response delivers them with, and on the whole header set of the signed request.
\<close>

theorem sign_then_verify:
  "((\<forall>v\<in>snd ` set ps. isScalar v) \<longrightarrow>
      (\<exists>h'. generateVerificationHash pf this (generateSalt pf @ password this) ps = Inr h'))
   \<and> generateHashToken pf (JStr (generateSalt pf)) (password this)
       = Inr (generateSalt pf @ password this)
   \<and> (generateVerificationHash pf this (generateSalt pf @ password this) ps = Inr h \<longrightarrow>
        verifyResponse pf this
          [(str ''X-Signature-Salt'', JStr (generateSalt pf)),
           (str ''X-Signature-Hash'', JStr h)] ps = Inr ()
        \<and> verifyResponse pf this
            [(str ''x-signature-hash'', JStr h),
             (str ''x-signature-salt'', JStr (generateSalt pf))] ps = Inr ()
        \<and> (\<exists>rq. signedRequest pf this ep ps = Inr rq
              \<and> verifyResponse pf this (map (\<lambda>(k, v). (k, JStr v)) (requestHeaders rq)) ps
                  = Inr ()))"
proof (intro conjI impI)
  assume "\<forall>v\<in>snd ` set ps. isScalar v"
  then obtain qs where "queryString pf ps = Inr qs"
    using queryString_scalar by blast
  then show "\<exists>h'. generateVerificationHash pf this (generateSalt pf @ password this) ps = Inr h'"
    by (simp add: generateVerificationHash_def)
next
  show tok: "generateHashToken pf (JStr (generateSalt pf)) (password this)
             = Inr (generateSalt pf @ password this)"
    by (simp add: generateHashToken_def)
  assume sig: "generateVerificationHash pf this (generateSalt pf @ password this) ps = Inr h"
  let ?sent = "[(str ''X-Signature-Salt'', JStr (generateSalt pf)),
                (str ''X-Signature-Hash'', JStr h)]"
  let ?recv = "[(str ''x-signature-hash'', JStr h),
                (str ''x-signature-salt'', JStr (generateSalt pf))]"
  let ?all = "[(str ''Authorization'', JStr (str ''Bearer '' @ apiKey this)),
               (str ''Accept-Language'', JStr (language this)),
               (str ''X-Signature-Salt'', JStr (generateSalt pf)),
               (str ''X-Signature-Hash'', JStr h),
               (str ''Content-Type'', JStr (str ''application/json''))]"
  have h: "h \<noteq> []" using sig by (rule generateVerificationHash_nonempty)
  have s: "generateSalt pf \<noteq> []" by (rule generateSalt_nonempty)
  have "receivedHash ?sent = JStr h" "receivedSalt ?sent = JStr (generateSalt pf)"
    using s by (simp_all add: header_names)
  then show "verifyResponse pf this ?sent ps = Inr ()"
    unfolding verifyResponse_def using h s tok sig by simp
  have "receivedHash ?recv = JStr h" "receivedSalt ?recv = JStr (generateSalt pf)"
    using s h by (simp_all add: header_names)
  then show "verifyResponse pf this ?recv ps = Inr ()"
    unfolding verifyResponse_def using h s tok sig by simp
  have "receivedHash ?all = JStr h" "receivedSalt ?all = JStr (generateSalt pf)"
    using s by (simp_all add: header_names)
  then have "verifyResponse pf this ?all ps = Inr ()"
    unfolding verifyResponse_def using h s tok sig by simp
  then show "\<exists>rq. signedRequest pf this ep ps = Inr rq
              \<and> verifyResponse pf this (map (\<lambda>(k, v). (k, JStr v)) (requestHeaders rq)) ps
                  = Inr ()"
    using tok sig by (simp add: signedRequest_def Let_def)
qed

theorem sign_then_verify_witness:
  "\<exists>h. generateVerificationHash examplePlatform exampleClient
          (generateSalt examplePlatform @ str ''p'') [(str ''b'', JNum (Fin 2))] = Inr h
       \<and> verifyResponse examplePlatform exampleClient
           [(str ''X-Signature-Salt'', JStr (generateSalt examplePlatform)),
            (str ''X-Signature-Hash'', JStr h)]
           [(str ''b'', JNum (Fin 2))] = Inr ()"
proof -
  have "\<forall>v\<in>snd ` set [(str ''b'', JNum (Fin 2))]. isScalar v"
    by simp
  with sign_then_verify [of "[(str ''b'', JNum (Fin 2))]" examplePlatform exampleClient]
  obtain h where h: "generateVerificationHash examplePlatform exampleClient
          (generateSalt examplePlatform @ password exampleClient) [(str ''b'', JNum (Fin 2))]
          = Inr h"
    by blast
  with sign_then_verify [of "[(str ''b'', JNum (Fin 2))]" examplePlatform exampleClient h]
  have "verifyResponse examplePlatform exampleClient
           [(str ''X-Signature-Salt'', JStr (generateSalt examplePlatform)),
            (str ''X-Signature-Hash'', JStr h)]
           [(str ''b'', JNum (Fin 2))] = Inr ()"
    by blast
  with h show ?thesis by auto
qed



text \<open>
  C3, as amended. For a parameter map none of whose keys is an array index or
  \<^verbatim>\<open>__proto__\<close>, the canonical query string is formed by sorting the keys ascending by UTF-16
  code unit and joining the entries \<^verbatim>\<open>key=value\<close> with \<^verbatim>\<open>&\<close>; a \<^verbatim>\<open>null\<close> or
  \<^verbatim>\<open>undefined\<close> value gives \<^verbatim>\<open>key=\<close>, and every other value of a parameter map is inserted
  as it is, with no encoding or escaping: a string as its own text, a boolean as \<^verbatim>\<open>true\<close> or
  \<^verbatim>\<open>false\<close>, a number as \<^verbatim>\<open>Number::toString\<close> prints it, which for an integer up to \<open>2^53\<close>
  in magnitude is its decimal numeral (digits only, no leading zero, reading back as the
  number, after \<^verbatim>\<open>-\<close> if it is negative) and for the remaining values \<^verbatim>\<open>NaN\<close>, \<^verbatim>\<open>Infinity\<close>,
  \<^verbatim>\<open>-Infinity\<close> or the text the platform prints.
\<close>

theorem canonical_query_string:
  assumes "distinct (map fst ps)"
    and "\<forall>k\<in>set (map fst ps). \<not> isArrayIndex k \<and> k \<noteq> str ''__proto__''"
  shows "queryString pf ps
           = bindE (mapE (entryString pf) (map (\<lambda>k. (k, objGet ps k)) (sort (map fst ps))))
               (\<lambda>parts. Inr (joinWith (str ''&'') parts))
         \<and> entryString pf (k, JNull) = Inr (k @ str ''='')
         \<and> entryString pf (k, JUndefined) = Inr (k @ str ''='')
         \<and> entryString pf (k, JStr s) = Inr (k @ str ''='' @ s)
         \<and> entryString pf (k, JBool b)
             = Inr (k @ str ''='' @ (if b then str ''true'' else str ''false''))
         \<and> entryString pf (k, JNum n) = Inr (k @ str ''='' @ numToString pf n)
         \<and> numToString pf NaN = str ''NaN''
         \<and> numToString pf PosInf = str ''Infinity''
         \<and> numToString pf NegInf = str ''-Infinity''
         \<and> (\<bar>i\<bar> \<le> 2 ^ 53 \<longrightarrow>
              numToString pf (Fin (of_int i))
              = (if i < 0 then 0x2D # natDigits (nat (- i)) else natDigits (nat i)))
         \<and> digitsValue (natDigits m) = m
         \<and> list_all isDigit (natDigits m)
         \<and> (length (natDigits m) = 1 \<or> hd (natDigits m) \<noteq> 0x30)
         \<and> ((\<forall>v\<in>snd ` set ps. isScalar v) \<longrightarrow>
              queryString pf ps
              = Inr (joinWith (str ''&'')
                  (map (\<lambda>k. k @ str ''='' @
                          (case objGet ps k of
                             JStr s \<Rightarrow> s
                           | JBool b \<Rightarrow> (if b then str ''true'' else str ''false'')
                           | JNum n \<Rightarrow> numToString pf n
                           | _ \<Rightarrow> []))
                     (sort (map fst ps)))))"
proof -
  have q: "queryString pf ps
           = bindE (mapE (entryString pf) (map (\<lambda>k. (k, objGet ps k)) (sort (map fst ps))))
               (\<lambda>parts. Inr (joinWith (str ''&'') parts))"
    using sortedParams_plain [OF assms] by (simp add: queryString_def)
  have e: "entryString pf (k, JNull) = Inr (k @ str ''='')"
    "entryString pf (k, JUndefined) = Inr (k @ str ''='')"
    "entryString pf (k, JStr s) = Inr (k @ str ''='' @ s)"
    "entryString pf (k, JBool b)
       = Inr (k @ str ''='' @ (if b then str ''true'' else str ''false''))"
    "entryString pf (k, JNum n) = Inr (k @ str ''='' @ numToString pf n)"
    by (simp_all add: entryString_def)
  have n: "numToString pf NaN = str ''NaN''" "numToString pf PosInf = str ''Infinity''"
    "numToString pf NegInf = str ''-Infinity''"
    by (simp_all add: numToString_def)
  have x: "queryString pf ps
              = Inr (joinWith (str ''&'')
                  (map (\<lambda>k. k @ str ''='' @
                          (case objGet ps k of
                             JStr s \<Rightarrow> s
                           | JBool b \<Rightarrow> (if b then str ''true'' else str ''false'')
                           | JNum n \<Rightarrow> numToString pf n
                           | _ \<Rightarrow> []))
                     (sort (map fst ps))))"
    if "\<forall>v\<in>snd ` set ps. isScalar v"
    using assms that by (rule queryString_explicit)
  from q e n x show ?thesis
    by (intro conjI impI numToString_integer digitsValue_natDigits natDigits_digits
          natDigits_canonical) assumption+
qed

theorem canonical_query_string_witness:
  "queryString examplePlatform
     [(str ''b'', JStr (str ''x&y'')), (str ''a'', JNull), (str ''B'', JStr (str ''='')),
      (str ''n'', JNum (Fin (- 100))), (str ''t'', JBool True)]
   = Inr (str ''B==&a=&b=x&y&n=-100&t=true'')"
proof -
  let ?ps = "[(str ''b'', JStr (str ''x&y'')), (str ''a'', JNull), (str ''B'', JStr (str ''='')),
              (str ''n'', JNum (Fin (- 100))), (str ''t'', JBool True)]"
  have d: "distinct (map fst ?ps)"
    by (simp add: str_def)
  have p: "\<forall>k\<in>set (map fst ?ps). \<not> isArrayIndex k \<and> k \<noteq> str ''__proto__''"
    by (simp add: str_def isArrayIndex_def isDigit_def)
  have sc: "\<forall>v\<in>snd ` set ?ps. isScalar v"
    by simp
  have "queryString examplePlatform ?ps
    = Inr (joinWith (str ''&'')
        (map (\<lambda>k. k @ str ''='' @
                (case objGet ?ps k of
                   JStr s \<Rightarrow> s
                 | JBool b \<Rightarrow> (if b then str ''true'' else str ''false'')
                 | JNum n \<Rightarrow> numToString examplePlatform n
                 | _ \<Rightarrow> []))
           (sort (map fst ?ps))))"
    using canonical_query_string
            [where ps = ?ps and pf = examplePlatform and k = "[]" and s = "[]" and b = True
               and n = NaN and i = 0 and m = 0, OF d p] sc
    by - (elim conjE, erule (1) mp)
  moreover have "sort (map fst ?ps) = [str ''B'', str ''a'', str ''b'', str ''n'', str ''t'']"
    by (simp add: str_def)
  moreover have "numToString examplePlatform (Fin (- 100)) = str ''-100''"
    by (simp add: str_def numToString_def isSafeInteger_def intToString_def natDigits.simps
          digitChar_def)
  ultimately show ?thesis
    by (simp add: objGet_def str_def)
qed

text \<open>
  The claim as worded fails twice. By the order itself: \<^verbatim>\<open>sort()\<close> compares UTF-16 code
  units, so the key U+1F600 (the surrogates D83D DE00) precedes the key U+FF5E, against the
  order of their code points. And by the copy into a fresh object: its array-index keys are
  enumerated first and in numeric order, so the keys \<^verbatim>\<open>10\<close> and \<^verbatim>\<open>9\<close> come out as
  \<^verbatim>\<open>9=b&10=a\<close>.
\<close>

theorem canonical_query_string_counterexample:
  "queryString examplePlatform
       [([0xFF5E], JStr (str ''a'')), ([0xD83D, 0xDE00], JStr (str ''b''))]
     = Inr ([0xD83D, 0xDE00] @ str ''=b&'' @ [0xFF5E] @ str ''=a'')
   \<and> specQueryString examplePlatform
       [([0xFF5E], JStr (str ''a'')), ([0xD83D, 0xDE00], JStr (str ''b''))]
     = Inr ([0xFF5E] @ str ''=a&'' @ [0xD83D, 0xDE00] @ str ''=b'')
   \<and> queryString examplePlatform [(str ''10'', JStr (str ''a'')), (str ''9'', JStr (str ''b''))]
     = Inr (str ''9=b&10=a'')
   \<and> specQueryString examplePlatform
       [(str ''10'', JStr (str ''a'')), (str ''9'', JStr (str ''b''))]
     = Inr (str ''10=a&9=b'')"
  by (simp add: eval_defs specQueryString_def)

text \<open>
  C8. Signing does not depend on the order in which the parameter map presents its
  entries: two objects with the same key/value pairs get the same signature.
\<close>

theorem signing_order_independent:
  assumes "distinct (map fst ps)" and "distinct (map fst qs)" and "set ps = set qs"
  shows "generateVerificationHash pf this tok ps = generateVerificationHash pf this tok qs"
  using sortedParams_cong [OF assms]
  by (simp add: generateVerificationHash_def queryString_def)

theorem signing_order_independent_witness:
  "generateVerificationHash examplePlatform exampleClient (str ''Sp'')
     [(str ''b'', JNum (Fin 2)), (str ''a'', JNum (Fin 1))]
   = generateVerificationHash examplePlatform exampleClient (str ''Sp'')
       [(str ''a'', JNum (Fin 1)), (str ''b'', JNum (Fin 2))]"
  by (rule signing_order_independent) (auto simp: str_def)

section \<open>The signature headers\<close>

text \<open>
  C4, as amended. Verification reads the hash and the salt under the lower-case keys
  \<^verbatim>\<open>x-signature-hash\<close> and \<^verbatim>\<open>x-signature-salt\<close> or else, when that read is falsy, under
  \<^verbatim>\<open>X-Signature-Hash\<close> and \<^verbatim>\<open>X-Signature-Salt\<close>, and under no other capitalization: the outcome
  depends on the headers through these four reads alone. It fails with the missing-signature
  error whenever one of the two is absent (or otherwise falsy) under both of its spellings,
  for every choice of response fields; an absent key reads as \<^verbatim>\<open>undefined\<close>. When both are
  there, the values read are the ones used: the signature is recomputed from the salt that
  was read, and verification succeeds if the hash that was read is that signature and fails
  with the mismatch error if it is anything else.
\<close>

theorem signature_headers_lookup:
  "((\<not> truthy (objGet hs (str ''x-signature-hash''))
       \<and> \<not> truthy (objGet hs (str ''X-Signature-Hash'')))
     \<or> (\<not> truthy (objGet hs (str ''x-signature-salt''))
       \<and> \<not> truthy (objGet hs (str ''X-Signature-Salt'')))
    \<longrightarrow> verifyResponse pf this hs fs = Inl MissingSignature)
   \<and> (h = (if truthy (objGet hs (str ''x-signature-hash''))
            then objGet hs (str ''x-signature-hash'')
            else objGet hs (str ''X-Signature-Hash''))
      \<and> s = (if truthy (objGet hs (str ''x-signature-salt''))
              then objGet hs (str ''x-signature-salt'')
              else objGet hs (str ''X-Signature-Salt''))
      \<and> truthy h \<and> truthy s
      \<and> toStr pf s = Inr salt
      \<and> generateVerificationHash pf this (salt @ password this) fs = Inr v
    \<longrightarrow> verifyResponse pf this hs fs = (if h = JStr v then Inr () else Inl HashMismatch))
   \<and> ((\<forall>k \<in> {str ''x-signature-hash'', str ''X-Signature-Hash'',
              str ''x-signature-salt'', str ''X-Signature-Salt''}. objGet hs k = objGet hs' k)
    \<longrightarrow> verifyResponse pf this hs fs = verifyResponse pf this hs' fs)
   \<and> (k \<notin> set (map fst hs) \<longrightarrow> objGet hs k = JUndefined)"
proof (intro conjI impI)
  assume "(\<not> truthy (objGet hs (str ''x-signature-hash''))
       \<and> \<not> truthy (objGet hs (str ''X-Signature-Hash'')))
     \<or> (\<not> truthy (objGet hs (str ''x-signature-salt''))
       \<and> \<not> truthy (objGet hs (str ''X-Signature-Salt'')))"
  then have "\<not> truthy (receivedHash hs) \<or> \<not> truthy (receivedSalt hs)"
    by (auto simp: receivedHash_def receivedSalt_def jsOr_def)
  then show "verifyResponse pf this hs fs = Inl MissingSignature"
    by (rule verifyResponse_missing)
next
  assume a: "h = (if truthy (objGet hs (str ''x-signature-hash''))
            then objGet hs (str ''x-signature-hash'')
            else objGet hs (str ''X-Signature-Hash''))
      \<and> s = (if truthy (objGet hs (str ''x-signature-salt''))
              then objGet hs (str ''x-signature-salt'')
              else objGet hs (str ''X-Signature-Salt''))
      \<and> truthy h \<and> truthy s
      \<and> toStr pf s = Inr salt
      \<and> generateVerificationHash pf this (salt @ password this) fs = Inr v"
  then have rh: "receivedHash hs = h" and rs: "receivedSalt hs = s"
    by (simp_all add: receivedHash_def receivedSalt_def jsOr_def)
  from a have ts: "toStr pf s = Inr salt" and th: "truthy h" "truthy s"
    and g: "generateVerificationHash pf this (salt @ password this) fs = Inr v"
    by blast+
  have "generateHashToken pf s (password this) = Inr (salt @ password this)"
    unfolding generateHashToken_def ts by simp
  with th g show "verifyResponse pf this hs fs = (if h = JStr v then Inr () else Inl HashMismatch)"
    unfolding verifyResponse_def rh rs by auto
next
  assume "\<forall>k \<in> {str ''x-signature-hash'', str ''X-Signature-Hash'',
              str ''x-signature-salt'', str ''X-Signature-Salt''}. objGet hs k = objGet hs' k"
  then have "receivedHash hs = receivedHash hs'" "receivedSalt hs = receivedSalt hs'"
    by (simp_all add: receivedHash_def receivedSalt_def)
  then show "verifyResponse pf this hs fs = verifyResponse pf this hs' fs"
    by (simp add: verifyResponse_def)
next
  assume "k \<notin> set (map fst hs)"
  then have "map_of hs k = None"
    by (simp add: map_of_eq_None_iff)
  then show "objGet hs k = JUndefined"
    by (simp add: objGet_def)
qed

theorem signature_headers_lookup_witness:
  "verifyResponse examplePlatform exampleClient
     [(str ''X-Signature-Hash'', JStr exampleSignature), (str ''x-signature-salt'', JStr (str ''S''))]
     [(str ''balance'', JNum (Fin 100)), (str ''response_timestamp'', JNum (Fin 1700000000000))]
   = Inr ()
   \<and> verifyResponse examplePlatform exampleClient
     [(str ''X-Signature-Hash'', JStr (str ''AAAA'')), (str ''x-signature-salt'', JStr (str ''S''))]
     [(str ''balance'', JNum (Fin 100)), (str ''response_timestamp'', JNum (Fin 1700000000000))]
   = Inl HashMismatch
   \<and> verifyResponse examplePlatform exampleClient
     [(str ''X-Signature-Hash'', JStr exampleSignature)]
     [(str ''balance'', JNum (Fin 100)), (str ''response_timestamp'', JNum (Fin 1700000000000))]
   = Inl MissingSignature"
proof -
  let ?fs = "[(str ''balance'', JNum (Fin 100)),
              (str ''response_timestamp'', JNum (Fin 1700000000000))]"
  have sp: "str ''S'' @ str ''p'' = str ''Sp''"
    by (simp add: str_def)
  have g: "generateVerificationHash examplePlatform exampleClient
             (str ''S'' @ password exampleClient) ?fs = Inr exampleSignature"
    by (simp add: sp sign_example)
  have "verifyResponse examplePlatform exampleClient
     [(str ''X-Signature-Hash'', JStr exampleSignature), (str ''x-signature-salt'', JStr (str ''S''))]
     ?fs = Inr ()"
    using g signature_headers_lookup
            [where hs = "[(str ''X-Signature-Hash'', JStr exampleSignature),
                          (str ''x-signature-salt'', JStr (str ''S''))]"
               and pf = examplePlatform and this = exampleClient and fs = ?fs
               and h = "JStr exampleSignature" and s = "JStr (str ''S'')"
               and salt = "str ''S''" and v = exampleSignature]
    by (simp add: objGet_def str_def)
  moreover have "exampleSignature \<noteq> str ''AAAA''"
    by (simp add: exampleSignature_def bytes32_def upt_conv_Cons str_def)
  then have "verifyResponse examplePlatform exampleClient
     [(str ''X-Signature-Hash'', JStr (str ''AAAA'')), (str ''x-signature-salt'', JStr (str ''S''))]
     ?fs = Inl HashMismatch"
    using g signature_headers_lookup
            [where hs = "[(str ''X-Signature-Hash'', JStr (str ''AAAA'')),
                          (str ''x-signature-salt'', JStr (str ''S''))]"
               and pf = examplePlatform and this = exampleClient and fs = ?fs
               and h = "JStr (str ''AAAA'')" and s = "JStr (str ''S'')"
               and salt = "str ''S''" and v = exampleSignature]
    by (simp add: objGet_def str_def)
  moreover have "verifyResponse examplePlatform exampleClient
     [(str ''X-Signature-Hash'', JStr exampleSignature)] ?fs = Inl MissingSignature"
    using signature_headers_lookup
            [where hs = "[(str ''X-Signature-Hash'', JStr exampleSignature)]"
               and pf = examplePlatform and this = exampleClient and fs = ?fs]
    by (simp add: objGet_def str_def)
  ultimately show ?thesis by blast
qed

text \<open>
  The claim as worded accepts any capitalization. With the names in capitals the headers
  count as missing, although the same salt and signature verify under the lower-case names.
\<close>

theorem signature_headers_lookup_counterexample:
  "verifyResponse examplePlatform exampleClient
     [(str ''X-SIGNATURE-HASH'', JStr exampleSignature), (str ''X-SIGNATURE-SALT'', JStr (str ''S''))]
     [(str ''balance'', JNum (Fin 100)), (str ''response_timestamp'', JNum (Fin 1700000000000))]
   = Inl MissingSignature
   \<and> verifyResponse examplePlatform exampleClient
     [(str ''x-signature-hash'', JStr exampleSignature), (str ''x-signature-salt'', JStr (str ''S''))]
     [(str ''balance'', JNum (Fin 100)), (str ''response_timestamp'', JNum (Fin 1700000000000))]
   = Inr ()"
proof -
  have "\<not> truthy (receivedHash [(str ''X-SIGNATURE-HASH'', JStr exampleSignature),
                                 (str ''X-SIGNATURE-SALT'', JStr (str ''S''))])"
    by (simp add: header_names)
  then show ?thesis
    by (simp add: verifyResponse_missing verify_example)
qed




section \<open>Constructing a client\<close>

text \<open>
  C9, as amended. Constructing a client fails with the invalid-base-URL error exactly when
  the base URL is none of the three values of \<^verbatim>\<open>BaseUrl\<close>: \<^verbatim>\<open>STAGING\<close>, \<^verbatim>\<open>PRODUCTION\<close> and
  \<^verbatim>\<open>DEV\<close>. For these three it succeeds and stores the credentials unchanged, the language
  defaulting to \<^verbatim>\<open>en\<close>.
\<close>

theorem base_url_gate:
  "newGPayApiClient a s p b l =
     (if b \<in> {BaseUrl_STAGING, BaseUrl_PRODUCTION, BaseUrl_DEV}
      then Inr \<lparr> apiKey = a, secretKey = s, password = p, baseUrl = b,
                 language = (case l of None \<Rightarrow> str ''en'' | Some x \<Rightarrow> x) \<rparr>
      else Inl InvalidBaseUrl)"
  by (simp add: newGPayApiClient_def BaseUrl_def BaseUrl_STAGING_def BaseUrl_PRODUCTION_def
      BaseUrl_DEV_def)

text \<open>
  The claim as worded admits \<^verbatim>\<open>STAGING\<close> and \<^verbatim>\<open>PRODUCTION\<close> only; the table has a third
  value, which the constructor accepts as well.
\<close>

theorem base_url_gate_counterexample:
  "newGPayApiClient (str ''api-key'') (str ''k'') (str ''p'') BaseUrl_DEV None
     = Inr \<lparr> apiKey = str ''api-key'', secretKey = str ''k'', password = str ''p'',
               baseUrl = BaseUrl_DEV, language = str ''en'' \<rparr>
   \<and> BaseUrl_DEV \<noteq> BaseUrl_STAGING \<and> BaseUrl_DEV \<noteq> BaseUrl_PRODUCTION"
  by (simp add: newGPayApiClient_def BaseUrl_def BaseUrl_STAGING_def BaseUrl_PRODUCTION_def
      BaseUrl_DEV_def str_def)

section \<open>Sending and the error envelope\<close>

lemma readResponse_envelope:
  assumes "propOf body (str ''error'') = JObj e"
  shows "readResponse pf (Response hs (Some body) st) = Inl (thrownApiError pf (JObj e))"
proof -
  from assms obtain ps where "body = JObj ps"
    by (cases body) simp_all
  with assms show ?thesis
    by (simp add: readResponse_def)
qed

lemmas operation_defs =
  getBalance_def createPaymentRequest_def checkPaymentStatus_def sendMoney_def
  getStatement_def checkWallet_def getOutstandingTransactions_def

lemma perform_propagates:
  assumes "requestParameters pf op = Inr ps"
    and "sendRequest pf this (endpointOf op) ps = Inl err"
  shows "perform pf this op = Inl err"
  using assms
  by (cases op) (auto simp: operation_defs bindE_eq_Inr)

lemma signedRequest_total:
  "queryString pf ps = Inr qs \<Longrightarrow> \<exists>rq. signedRequest pf this ep ps = Inr rq"
  by (simp add: signedRequest_def generateHashToken_def generateVerificationHash_def Let_def)

lemma queryString_timestamp:
  "dateNow pf = 1700000000000 \<Longrightarrow>
   queryString pf [(str ''request_timestamp'', timestampNow pf)]
   = Inr (str ''request_timestamp=1700000000000'')"
  by (simp add: eval_defs timestampNow_def)

lemma refusingPlatform_simps [simp]:
  "hmacSha256 refusingPlatform = exampleHmac"
  "randomBytes32 refusingPlatform = 0x0123456789ABCDEF"
  "dateNow refusingPlatform = 1700000000000"
  "fetch refusingPlatform req =
     Response [] (Some (JObj [(str ''error'',
                               JObj [(str ''code'', JNum (Fin 0)),
                                     (str ''message'', JStr (str ''Denied''))])])) 400"
  by (simp_all add: refusingPlatform_def examplePlatform_def)

lemma forgingPlatform_simps [simp]:
  "hmacSha256 forgingPlatform = exampleHmac"
  "randomBytes32 forgingPlatform = 0x0123456789ABCDEF"
  "dateNow forgingPlatform = 1700000000000"
  "fetch forgingPlatform req =
     Response [(str ''x-signature-hash'', str ''AAAA''), (str ''x-signature-salt'', str ''S'')]
       (Some exampleBody) 200"
  by (simp_all add: forgingPlatform_def examplePlatform_def)

lemma unprintablePlatform_simps [simp]:
  "hmacSha256 unprintablePlatform = exampleHmac"
  "randomBytes32 unprintablePlatform = 0x0123456789ABCDEF"
  "dateNow unprintablePlatform = 1700000000000"
  "fetch unprintablePlatform req =
     Response [] (Some (JObj [(str ''error'',
                               JObj [(str ''code'', JObj [(str ''toString'', JNull)]),
                                     (str ''message'', JStr (str ''Denied''))])])) 400"
  by (simp_all add: unprintablePlatform_def examplePlatform_def)

text \<open>
  C6, as amended. When the parsed body has an error envelope, \<^verbatim>\<open>sendRequest\<close> raises an error
  and so does every operation, with that same error, before any verification or record
  construction: whatever the signature headers are, the outcome is the envelope's error and
  never a missing-signature or mismatch error. The error is the API error whose message is
  \<^verbatim>\<open>GPay API Error (code): message\<close>, with the code and the message converted to strings and a
  code or message that is missing or falsy (\<^verbatim>\<open>undefined\<close>, \<^verbatim>\<open>null\<close>, \<^verbatim>\<open>false\<close>, \<^verbatim>\<open>0\<close>,
  \<^verbatim>\<open>NaN\<close>, the empty string) replaced by \<^verbatim>\<open>UNKNOWN_CODE\<close> or \<^verbatim>\<open>Unknown error\<close>; for a code and
  a message that are scalars the text is written out. The one exception: when the conversion
  of the code or of the message to a string throws, as for an object with an own property
  \<^verbatim>\<open>toString\<close>, the error raised is that \<^verbatim>\<open>TypeError\<close>.
\<close>

theorem error_envelope_short_circuits:
  assumes "requestParameters pf op = Inr ps"
    and "signedRequest pf this (endpointOf op) ps = Inr rq"
    and "fetch pf rq = Response hs (Some body) st"
    and "propOf body (str ''error'') = JObj e"
  shows "sendRequest pf this (endpointOf op) ps = Inl (thrownApiError pf (JObj e))
         \<and> perform pf this op = Inl (thrownApiError pf (JObj e))
         \<and> (isScalar (objGet e (str ''code'')) \<and> isScalar (objGet e (str ''message''))
            \<longrightarrow> thrownApiError pf (JObj e)
                  = GPayApiError
                      (str ''GPay API Error ('' @
                       (case objGet e (str ''code'') of
                          JStr s \<Rightarrow> (if s = [] then str ''UNKNOWN_CODE'' else s)
                        | JBool b \<Rightarrow> (if b then str ''true'' else str ''UNKNOWN_CODE'')
                        | JNum n \<Rightarrow> (if n = NaN \<or> n = Fin 0 then str ''UNKNOWN_CODE''
                                      else numToString pf n)
                        | _ \<Rightarrow> str ''UNKNOWN_CODE'') @
                       str ''): '' @
                       (case objGet e (str ''message'') of
                          JStr s \<Rightarrow> (if s = [] then str ''Unknown error'' else s)
                        | JBool b \<Rightarrow> (if b then str ''true'' else str ''Unknown error'')
                        | JNum n \<Rightarrow> (if n = NaN \<or> n = Fin 0 then str ''Unknown error''
                                      else numToString pf n)
                        | _ \<Rightarrow> str ''Unknown error'')))
         \<and> (toStr pf (if truthy (objGet e (str ''code'')) then objGet e (str ''code'')
                       else JStr (str ''UNKNOWN_CODE'')) = Inr c
              \<and> toStr pf (if truthy (objGet e (str ''message'')) then objGet e (str ''message'')
                           else JStr (str ''Unknown error'')) = Inr m
            \<longrightarrow> thrownApiError pf (JObj e)
                  = GPayApiError (str ''GPay API Error ('' @ c @ str ''): '' @ m))
         \<and> (toStr pf (objGet e (str ''code'')) = Inl t
              \<or> toStr pf (objGet e (str ''message'')) = Inl t
            \<longrightarrow> thrownApiError pf (JObj e) = TypeError)
         \<and> toStr pf (JObj ob)
             = (if str ''toString'' \<in> set (map fst ob) then Inl TypeError
                else Inr (str ''[object Object]''))"
proof -
  let ?c = "objGet e (str ''code'')" and ?m = "objGet e (str ''message'')"
  let ?c' = "if truthy ?c then ?c else JStr (str ''UNKNOWN_CODE'')"
  let ?m' = "if truthy ?m then ?m else JStr (str ''Unknown error'')"
  have s: "sendRequest pf this (endpointOf op) ps = Inl (thrownApiError pf (JObj e))"
    using assms(2,3,4) by (simp add: sendRequest_def readResponse_envelope)
  from assms(1) s have p: "perform pf this op = Inl (thrownApiError pf (JObj e))"
    by (rule perform_propagates)
  have t: "thrownApiError pf (JObj e)
             = (case toStr pf ?c' of
                  Inl t \<Rightarrow> t
                | Inr c \<Rightarrow>
                   (case toStr pf ?m' of
                      Inl t \<Rightarrow> t
                    | Inr m \<Rightarrow> GPayApiError (str ''GPay API Error ('' @ c @ str ''): '' @ m)))"
    by (simp add: thrownApiError_def Let_def jsOr_def)
  have sc: "thrownApiError pf (JObj e)
                  = GPayApiError
                      (str ''GPay API Error ('' @
                       (case ?c of
                          JStr s \<Rightarrow> (if s = [] then str ''UNKNOWN_CODE'' else s)
                        | JBool b \<Rightarrow> (if b then str ''true'' else str ''UNKNOWN_CODE'')
                        | JNum n \<Rightarrow> (if n = NaN \<or> n = Fin 0 then str ''UNKNOWN_CODE''
                                      else numToString pf n)
                        | _ \<Rightarrow> str ''UNKNOWN_CODE'') @
                       str ''): '' @
                       (case ?m of
                          JStr s \<Rightarrow> (if s = [] then str ''Unknown error'' else s)
                        | JBool b \<Rightarrow> (if b then str ''true'' else str ''Unknown error'')
                        | JNum n \<Rightarrow> (if n = NaN \<or> n = Fin 0 then str ''Unknown error''
                                      else numToString pf n)
                        | _ \<Rightarrow> str ''Unknown error''))"
    if "isScalar ?c \<and> isScalar ?m"
    using that unfolding t by (cases ?c; cases ?m) simp_all
  have ok: "thrownApiError pf (JObj e)
              = GPayApiError (str ''GPay API Error ('' @ c @ str ''): '' @ m)"
    if "toStr pf ?c' = Inr c \<and> toStr pf ?m' = Inr m"
    using that unfolding t by simp
  have bad: "thrownApiError pf (JObj e) = TypeError"
    if "toStr pf ?c = Inl t \<or> toStr pf ?m = Inl t"
  proof -
    have c: "truthy ?c" if "toStr pf ?c = Inl t" for t
      using that by (cases ?c) auto
    have m: "truthy ?m" if "toStr pf ?m = Inl t" for t
      using that by (cases ?m) auto
    show ?thesis
    proof (cases "toStr pf ?c'")
      case (Inl u)
      then have "u = TypeError" by (rule toStr_error(1))
      with Inl show ?thesis unfolding t by simp
    next
      case (Inr c)
      with that c have "toStr pf ?m = Inl t"
        by (auto split: if_splits)
      with m have "toStr pf ?m' = Inl t" by simp
      moreover from this have "t = TypeError" by (rule toStr_error(1))
      ultimately show ?thesis unfolding t using Inr by simp
    qed
  qed
  have ob: "toStr pf (JObj ob)
             = (if str ''toString'' \<in> set (map fst ob) then Inl TypeError
                else Inr (str ''[object Object]''))"
    by simp
  from s p sc ok bad ob show ?thesis by blast
qed

theorem error_envelope_short_circuits_witness:
  "perform refusingPlatform exampleClient GetBalance
   = Inl (GPayApiError (str ''GPay API Error (UNKNOWN_CODE): Denied''))"
proof -
  obtain rq where rq: "signedRequest refusingPlatform exampleClient (endpointOf GetBalance)
     [(str ''request_timestamp'', timestampNow refusingPlatform)] = Inr rq"
    using signedRequest_total [OF queryString_timestamp [OF refusingPlatform_simps(3)]] by blast
  have "perform refusingPlatform exampleClient GetBalance
        = Inl (thrownApiError refusingPlatform
                 (JObj [(str ''code'', JNum (Fin 0)), (str ''message'', JStr (str ''Denied''))]))"
    using error_envelope_short_circuits
            [where op = GetBalance and pf = refusingPlatform and this = exampleClient, OF _ rq]
    by (simp add: objGet_def)
  then show ?thesis
    by (simp add: thrownApiError_def jsOr_def objGet_def str_def)
qed

text \<open>
  The claim as worded has the error carry the envelope's code and message. For the envelope
  \<^verbatim>\<open>{error: {code: 0, message: "Denied"}}\<close> the error raised names \<^verbatim>\<open>UNKNOWN_CODE\<close>, not the
  code 0; and for \<^verbatim>\<open>{error: {code: {"toString": null}, message: "Denied"}}\<close> the error raised
  is a \<^verbatim>\<open>TypeError\<close>, which carries neither.
\<close>

theorem error_envelope_short_circuits_counterexample:
  "sendRequest refusingPlatform exampleClient (str ''/info/balance'')
     [(str ''request_timestamp'', timestampNow refusingPlatform)]
   = Inl (GPayApiError (str ''GPay API Error (UNKNOWN_CODE): Denied''))
   \<and> sendRequest unprintablePlatform exampleClient (str ''/info/balance'')
     [(str ''request_timestamp'', timestampNow unprintablePlatform)]
   = Inl TypeError"
proof -
  obtain rq where "signedRequest refusingPlatform exampleClient (str ''/info/balance'')
     [(str ''request_timestamp'', timestampNow refusingPlatform)] = Inr rq"
    using signedRequest_total [OF queryString_timestamp [OF refusingPlatform_simps(3)]] by blast
  then have a: "sendRequest refusingPlatform exampleClient (str ''/info/balance'')
     [(str ''request_timestamp'', timestampNow refusingPlatform)]
   = Inl (GPayApiError (str ''GPay API Error (UNKNOWN_CODE): Denied''))"
    by (simp add: sendRequest_def readResponse_def thrownApiError_def jsOr_def objGet_def)
       (simp add: str_def)
  obtain rq' where "signedRequest unprintablePlatform exampleClient (str ''/info/balance'')
     [(str ''request_timestamp'', timestampNow unprintablePlatform)] = Inr rq'"
    using signedRequest_total [OF queryString_timestamp [OF unprintablePlatform_simps(3)]]
    by blast
  then have "sendRequest unprintablePlatform exampleClient (str ''/info/balance'')
     [(str ''request_timestamp'', timestampNow unprintablePlatform)] = Inl TypeError"
    by (simp add: sendRequest_def readResponse_def thrownApiError_def jsOr_def objGet_def)
  with a show ?thesis by simp
qed

section \<open>Records come after verification\<close>

lemmas parse_defs =
  parseFloat_def trimStart_def isWhiteSpace_def strDecimalLiteral_def
  strUnsignedDecimalLiteral_def exponentPart_def decimalValue_def toDouble_def
  isSafeInteger_def digitsValue_def isDigit_def str_def numToString_def intToString_def
  natDigits.simps digitChar_def Let_def

lemma parseFloat_49_90: "parseFloat pf (JStr (str ''49.90'')) = Inr (toDouble pf (499 / 10))"
  by (simp add: parse_defs)

lemma parseFloat_null: "parseFloat pf JNull = Inr NaN"
  by (simp add: parse_defs)

lemma parseFloat_100: "parseFloat pf (JNum (Fin 100)) = Inr (Fin 100)"
  by (simp add: parse_defs)

lemma stringToNumber_timestamp: "stringToNumber pf (str ''1700000000000'') = Fin 1700000000000"
  by (simp add: stringToNumber_def trimEnd_def nonDecimalIntegerLiteral_def parse_defs)

lemma inj_str: "inj str"
proof -
  have "inj (\<lambda>c::char. (of_nat (of_char c) :: 16 word))"
  proof (rule injI)
    fix a b :: char
    assume "(of_nat (of_char a) :: 16 word) = of_nat (of_char b)"
    then have "unat (of_nat (of_char a) :: 16 word) = unat (of_nat (of_char b) :: 16 word)"
      by simp
    moreover have "(of_char c :: nat) < 65536" for c
      by (rule order_less_trans [OF nat_of_char_less_256]) simp
    ultimately have "(of_char a :: nat) = of_char b"
      by (simp add: unat_of_nat)
    then show "a = b" by simp
  qed
  then have "inj (map (\<lambda>c::char. (of_nat (of_char c) :: 16 word)))"
    by (rule inj_mapI)
  moreover have "str = map (\<lambda>c::char. (of_nat (of_char c) :: 16 word))"
    by (rule ext) (simp add: str_def)
  ultimately show ?thesis by simp
qed

lemma verified_pick:
  assumes "n \<in> set names"
  shows "verified (pick data names) n = field data n"
proof -
  have "map_of (map (\<lambda>n. (str n, field data n)) names) (str n) = Some (field data n)"
    using assms
  proof (induction names)
    case Nil
    then show ?case by simp
  next
    case (Cons a names)
    then show ?case using inj_str by (auto simp: inj_def)
  qed
  then show ?thesis by (simp add: verified_def pick_def objGet_def)
qed

lemma perform_verified:
  assumes "perform pf this op = Inr r"
  shows "\<exists>ps result.
           requestParameters pf op = Inr ps
           \<and> sendRequest pf this (endpointOf op) ps = Inr result
           \<and> verifyResponse pf this (headers result)
               (pick (field (response result) ''data'') (signedResponseFields op)) = Inr ()
           \<and> recordOfVerified pf op
               (pick (field (response result) ''data'') (signedResponseFields op))
               (unsignedRows op (field (response result) ''data'')) = Inr r"
  using assms
  by (cases op)
     (auto simp: operation_defs bindE_eq_Inr Let_def verified_pick split: if_splits)

lemma perform_unverified:
  assumes "requestParameters pf op = Inr ps"
    and "sendRequest pf this (endpointOf op) ps = Inr result"
    and "verifyResponse pf this (headers result)
           (pick (field (response result) ''data'') (signedResponseFields op)) = Inl e"
  shows "perform pf this op =
           Inl (if field (response result) ''data'' \<in> {JUndefined, JNull} then TypeError else e)"
  using assms
  by (cases op) (auto simp: operation_defs bindE_eq_Inr Let_def split: if_splits)

lemma length_base64_bytes32: "length (base64 (bytes32 w)) = 44"
  by (simp add: bytes32_def upt_conv_Cons)

lemma base64_bytes32_not_AAAA [simp]: "base64 (bytes32 w) \<noteq> str ''AAAA''"
proof
  assume "base64 (bytes32 w) = str ''AAAA''"
  then have "length (base64 (bytes32 w)) = length (str ''AAAA'')" by simp
  then show False by (simp add: length_base64_bytes32 str_def)
qed

lemma sendRequest_example:
  "sendRequest examplePlatform exampleClient (str ''/info/balance'')
     [(str ''request_timestamp'', timestampNow examplePlatform)]
   = Inr \<lparr> response = exampleBody,
            headers = [(str ''x-signature-hash'', JStr exampleSignature),
                       (str ''x-signature-salt'', JStr (str ''S''))],
            code = 200 \<rparr>"
proof -
  obtain rq where "signedRequest examplePlatform exampleClient (str ''/info/balance'')
     [(str ''request_timestamp'', timestampNow examplePlatform)] = Inr rq"
    using signedRequest_total [OF queryString_timestamp [OF examplePlatform_simps(3)]] by blast
  then show ?thesis
    by (simp add: sendRequest_def readResponse_def exampleBody_def objSet_def objGet_def)
       (simp add: str_def)
qed

lemma sendRequest_forging:
  "sendRequest forgingPlatform exampleClient (str ''/info/balance'')
     [(str ''request_timestamp'', timestampNow forgingPlatform)]
   = Inr \<lparr> response = exampleBody,
            headers = [(str ''x-signature-hash'', JStr (str ''AAAA'')),
                       (str ''x-signature-salt'', JStr (str ''S''))],
            code = 200 \<rparr>"
proof -
  obtain rq where "signedRequest forgingPlatform exampleClient (str ''/info/balance'')
     [(str ''request_timestamp'', timestampNow forgingPlatform)] = Inr rq"
    using signedRequest_total [OF queryString_timestamp [OF forgingPlatform_simps(3)]] by blast
  then show ?thesis
    by (simp add: sendRequest_def readResponse_def exampleBody_def objSet_def objGet_def)
       (simp add: str_def)
qed

lemma pick_example:
  "pick (field exampleBody ''data'') [''balance'', ''response_timestamp'']
   = [(str ''balance'', JNum (Fin 100)), (str ''response_timestamp'', JNum (Fin 1700000000000))]"
  by (simp add: pick_def field_def exampleBody_def objGet_def str_def)

lemma verify_forged:
  "verifyResponse forgingPlatform exampleClient
     [(str ''x-signature-hash'', JStr (str ''AAAA'')), (str ''x-signature-salt'', JStr (str ''S''))]
     [(str ''balance'', JNum (Fin 100)), (str ''response_timestamp'', JNum (Fin 1700000000000))]
   = Inl HashMismatch"
proof -
  let ?hs = "[(str ''x-signature-hash'', JStr (str ''AAAA'')),
              (str ''x-signature-salt'', JStr (str ''S''))]"
  have rh: "receivedHash ?hs = JStr (str ''AAAA'')"
    by (simp add: header_names)
  have rs: "receivedSalt ?hs = JStr (str ''S'')"
    by (simp add: header_names)
  have ne: "str ''AAAA'' \<noteq> []" "str ''S'' \<noteq> []"
    by (simp_all add: str_def)
  show ?thesis
    unfolding verifyResponse_def rh rs
    using ne by (simp add: generateHashToken_def generateVerificationHash_def queryString_balance)
qed

lemma perform_example:
  "perform examplePlatform exampleClient GetBalance
   = Inr (ABalance (Balance (JNum (Fin 100)) (Date (Fin 1700000000000))))"
proof -
  have d: "field exampleBody ''data'' \<noteq> JUndefined" "field exampleBody ''data'' \<noteq> JNull"
    by (simp_all add: field_def exampleBody_def objGet_def str_def)
  have f: "field (field exampleBody ''data'') ''balance'' = JNum (Fin 100)"
     "field (field exampleBody ''data'') ''response_timestamp'' = JNum (Fin 1700000000000)"
    by (simp_all add: field_def exampleBody_def objGet_def str_def)
  show ?thesis
    by (simp add: getBalance_def sendRequest_example d pick_example verify_example f
          new_Balance_def parseFloat_100)
qed

subsection \<open>A statement whose rows differ under one signature\<close>

lemma statementPlatform_simps [simp]:
  "hmacSha256 (statementPlatform rows) = exampleHmac"
  "randomBytes32 (statementPlatform rows) = 0x0123456789ABCDEF"
  "dateNow (statementPlatform rows) = 1700000000000"
  "fetch (statementPlatform rows) req =
     Response [(str ''x-signature-hash'', statementSignature), (str ''x-signature-salt'', str ''S'')]
       (Some (statementBody rows)) 200"
  "roundNumber (statementPlatform rows) = Fin"
  by (simp_all add: statementPlatform_def examplePlatform_def)

lemma statementSignature_nonempty [simp]: "statementSignature \<noteq> []"
  by (simp add: statementSignature_def)

lemma statement_fields:
  "field (statementBody rows) ''data'' \<noteq> JUndefined"
  "field (statementBody rows) ''data'' \<noteq> JNull"
  "field (field (statementBody rows) ''data'') ''day_statement'' = rows"
  "pick (field (statementBody rows) ''data'')
     [''available_balance'', ''outstanding_credit'', ''outstanding_debit'', ''day_balance'',
      ''day_total_in'', ''day_total_out'', ''response_timestamp'']
   = [(str ''available_balance'', JStr (str ''1'')),
      (str ''outstanding_credit'', JStr (str ''0'')),
      (str ''outstanding_debit'', JStr (str ''0'')),
      (str ''day_balance'', JStr (str ''1'')),
      (str ''day_total_in'', JStr (str ''0'')),
      (str ''day_total_out'', JStr (str ''0'')),
      (str ''response_timestamp'', JStr (str ''1700000000000''))]"
  by (simp_all add: pick_def field_def statementBody_def objGet_def str_def)

lemma queryString_statement:
  "queryString pf
     [(str ''available_balance'', JStr (str ''1'')),
      (str ''outstanding_credit'', JStr (str ''0'')),
      (str ''outstanding_debit'', JStr (str ''0'')),
      (str ''day_balance'', JStr (str ''1'')),
      (str ''day_total_in'', JStr (str ''0'')),
      (str ''day_total_out'', JStr (str ''0'')),
      (str ''response_timestamp'', JStr (str ''1700000000000''))]
   = Inr (str ''available_balance=1&day_balance=1&day_total_in=0&day_total_out=0&outstanding_credit=0&outstanding_debit=0&response_timestamp=1700000000000'')"
  by (simp add: eval_defs)

lemma verify_statement:
  "verifyResponse (statementPlatform rows) exampleClient
     [(str ''x-signature-hash'', JStr statementSignature),
      (str ''x-signature-salt'', JStr (str ''S''))]
     [(str ''available_balance'', JStr (str ''1'')),
      (str ''outstanding_credit'', JStr (str ''0'')),
      (str ''outstanding_debit'', JStr (str ''0'')),
      (str ''day_balance'', JStr (str ''1'')),
      (str ''day_total_in'', JStr (str ''0'')),
      (str ''day_total_out'', JStr (str ''0'')),
      (str ''response_timestamp'', JStr (str ''1700000000000''))]
   = Inr ()"
proof -
  let ?hs = "[(str ''x-signature-hash'', JStr statementSignature),
              (str ''x-signature-salt'', JStr (str ''S''))]"
  have rh: "receivedHash ?hs = JStr statementSignature"
    by (simp add: header_names)
  have rs: "receivedSalt ?hs = JStr (str ''S'')"
    by (simp add: header_names)
  have ne: "str ''S'' \<noteq> []"
    by (simp add: str_def)
  have tok: "generateHashToken (statementPlatform rows) (JStr (str ''S'')) (str ''p'')
             = Inr (str ''Sp'')"
    by (simp add: generateHashToken_def str_def)
  show ?thesis
    unfolding verifyResponse_def rh rs
    using ne
    by (simp add: tok generateVerificationHash_def queryString_statement statementSignature_def)
       (simp add: str_def)
qed

lemma sendRequest_statement:
  "sendRequest (statementPlatform rows) exampleClient (str ''/info/statement'')
     [(str ''date'', JStr (str ''2025-06-22'')),
      (str ''request_timestamp'', timestampNow (statementPlatform rows))]
   = Inr \<lparr> response = statementBody rows,
            headers = [(str ''x-signature-hash'', JStr statementSignature),
                       (str ''x-signature-salt'', JStr (str ''S''))],
            code = 200 \<rparr>"
proof -
  have "\<forall>v\<in>snd ` set [(str ''date'', JStr (str ''2025-06-22'')),
      (str ''request_timestamp'', timestampNow (statementPlatform rows))]. isScalar v"
    by (simp add: timestampNow_def)
  then obtain qs where "queryString (statementPlatform rows)
      [(str ''date'', JStr (str ''2025-06-22'')),
       (str ''request_timestamp'', timestampNow (statementPlatform rows))] = Inr qs"
    using queryString_scalar by blast
  then obtain rq where "signedRequest (statementPlatform rows) exampleClient
      (str ''/info/statement'')
      [(str ''date'', JStr (str ''2025-06-22'')),
       (str ''request_timestamp'', timestampNow (statementPlatform rows))] = Inr rq"
    using signedRequest_total by blast
  then show ?thesis
    by (simp add: sendRequest_def readResponse_def statementBody_def objSet_def objGet_def)
       (simp add: str_def)
qed

lemma parseFloat_digit:
  "parseFloat pf (JStr (str ''0'')) = Inr (Fin 0)"
  "parseFloat pf (JStr (str ''1'')) = Inr (Fin 1)"
  "parseFloat pf (JStr (str ''5'')) = Inr (Fin 5)"
  "parseFloat pf (JStr (str ''999'')) = Inr (Fin 999)"
  by (simp_all add: parse_defs)

lemma statementRow_amount:
  "parseFloat pf (JStr a) = Inr n \<Longrightarrow>
   statementRow pf (JObj [(str ''amount'', JStr a)])
   = Inr (StatementTransaction JUndefined JUndefined JUndefined JUndefined (JNum n) JNull
            JUndefined JUndefined JUndefined JUndefined)"
  by (simp add: statementRow_def new_StatementTransaction_def parseFloatOrNull_def field_def
        objGet_def str_def)

lemma getStatement_example:
  assumes "parseFloat (statementPlatform (JArr [JObj [(str ''amount'', JStr a)]])) (JStr a) = Inr n"
  shows "perform (statementPlatform (JArr [JObj [(str ''amount'', JStr a)]])) exampleClient
           (GetStatement (JStr (str ''2025-06-22'')))
         = Inr (AStatement (Statement (JNum (Fin 1)) (JNum (Fin 0)) (JNum (Fin 0)) (JNum (Fin 1))
                  (JNum (Fin 0)) (JNum (Fin 0)) (Date (Fin 1700000000000))
                  [StatementTransaction JUndefined JUndefined JUndefined JUndefined (JNum n)
                     JNull JUndefined JUndefined JUndefined JUndefined]))"
proof -
  have f: "field (field (statementBody rows) ''data'') ''available_balance'' = JStr (str ''1'')"
    "field (field (statementBody rows) ''data'') ''outstanding_credit'' = JStr (str ''0'')"
    "field (field (statementBody rows) ''data'') ''outstanding_debit'' = JStr (str ''0'')"
    "field (field (statementBody rows) ''data'') ''day_balance'' = JStr (str ''1'')"
    "field (field (statementBody rows) ''data'') ''day_total_in'' = JStr (str ''0'')"
    "field (field (statementBody rows) ''data'') ''day_total_out'' = JStr (str ''0'')"
    "field (field (statementBody rows) ''data'') ''response_timestamp''
       = JStr (str ''1700000000000'')" for rows
    by (simp_all add: field_def statementBody_def objGet_def str_def)
  show ?thesis
    by (simp add: getStatement_def sendRequest_statement statement_fields verify_statement f
          statementRow_amount [OF assms] new_Statement_def parseFloat_digit
          stringToNumber_timestamp)
qed

text \<open>
  C5. A result record of any of the seven operations comes only after \<^verbatim>\<open>verifyResponse\<close> has
  succeeded on the headers of that very response and on the operation's signed fields of its
  body. The record is computed from those verified fields alone, except for the transaction
  rows \<^verbatim>\<open>day_statement\<close> of \<^verbatim>\<open>getStatement\<close> and \<^verbatim>\<open>outstanding_transactions\<close> of
  \<^verbatim>\<open>getOutstandingTransactions\<close>, which are not signed fields and enter the record as received.
  When verification fails, with the missing-signature error or with a mismatch, the operation
  ends in that error and returns no record (and a body without \<^verbatim>\<open>data\<close> ends in a
  \<^verbatim>\<open>TypeError\<close> before verification, again with no record).
\<close>

theorem record_only_after_verification:
  "(perform pf this op = Inr r \<longrightarrow>
      (\<exists>ps result.
         requestParameters pf op = Inr ps
         \<and> sendRequest pf this (endpointOf op) ps = Inr result
         \<and> verifyResponse pf this (headers result)
             (pick (field (response result) ''data'') (signedResponseFields op)) = Inr ()
         \<and> recordOfVerified pf op
             (pick (field (response result) ''data'') (signedResponseFields op))
             (unsignedRows op (field (response result) ''data'')) = Inr r))
   \<and> (requestParameters pf op = Inr ps
        \<and> sendRequest pf this (endpointOf op) ps = Inr result
        \<and> verifyResponse pf this (headers result)
            (pick (field (response result) ''data'') (signedResponseFields op)) = Inl e
      \<longrightarrow> perform pf this op =
            Inl (if field (response result) ''data'' \<in> {JUndefined, JNull} then TypeError
                 else e))"
  using perform_verified perform_unverified by blast

theorem record_only_after_verification_witness:
  "(\<exists>ps result.
      requestParameters examplePlatform GetBalance = Inr ps
      \<and> sendRequest examplePlatform exampleClient (endpointOf GetBalance) ps = Inr result
      \<and> verifyResponse examplePlatform exampleClient (headers result)
          (pick (field (response result) ''data'') (signedResponseFields GetBalance)) = Inr ()
      \<and> recordOfVerified examplePlatform GetBalance
          (pick (field (response result) ''data'') (signedResponseFields GetBalance))
          (unsignedRows GetBalance (field (response result) ''data''))
          = Inr (ABalance (Balance (JNum (Fin 100)) (Date (Fin 1700000000000)))))
   \<and> perform forgingPlatform exampleClient GetBalance = Inl HashMismatch"
proof -
  have d: "field exampleBody ''data'' \<noteq> JUndefined" "field exampleBody ''data'' \<noteq> JNull"
    by (simp_all add: field_def exampleBody_def objGet_def str_def)
  have "perform forgingPlatform exampleClient GetBalance
        = Inl (if field exampleBody ''data'' \<in> {JUndefined, JNull} then TypeError
               else HashMismatch)"
    using record_only_after_verification
            [where pf = forgingPlatform and this = exampleClient and op = GetBalance
               and ps = "[(str ''request_timestamp'', timestampNow forgingPlatform)]"
               and e = HashMismatch
               and result = "\<lparr> response = exampleBody,
                   headers = [(str ''x-signature-hash'', JStr (str ''AAAA'')),
                              (str ''x-signature-salt'', JStr (str ''S''))],
                   code = 200 \<rparr>"]
    by (simp add: sendRequest_forging pick_example verify_forged)
  with d have "perform forgingPlatform exampleClient GetBalance = Inl HashMismatch"
    by simp
  moreover from record_only_after_verification
       [where pf = examplePlatform and this = exampleClient and op = GetBalance
          and r = "ABalance (Balance (JNum (Fin 100)) (Date (Fin 1700000000000)))"]
     perform_example
  have "\<exists>ps result.
      requestParameters examplePlatform GetBalance = Inr ps
      \<and> sendRequest examplePlatform exampleClient (endpointOf GetBalance) ps = Inr result
      \<and> verifyResponse examplePlatform exampleClient (headers result)
          (pick (field (response result) ''data'') (signedResponseFields GetBalance)) = Inr ()
      \<and> recordOfVerified examplePlatform GetBalance
          (pick (field (response result) ''data'') (signedResponseFields GetBalance))
          (unsignedRows GetBalance (field (response result) ''data''))
          = Inr (ABalance (Balance (JNum (Fin 100)) (Date (Fin 1700000000000))))"
    by blast
  ultimately show ?thesis by blast
qed

text \<open>
  C5, as the specification words it, fails: two \<^verbatim>\<open>/info/statement\<close> responses with the same
  signature headers and the same signed fields, differing only in the amount of a transaction
  row, both pass verification, and each row reaches the caller in the returned record, 5 in
  one and 999 in the other.
\<close>

theorem record_only_after_verification_counterexample:
  "pick (field (statementBody (JArr [JObj [(str ''amount'', JStr (str ''5''))]])) ''data'')
     (signedResponseFields (GetStatement (JStr (str ''2025-06-22''))))
   = pick (field (statementBody (JArr [JObj [(str ''amount'', JStr (str ''999''))]])) ''data'')
       (signedResponseFields (GetStatement (JStr (str ''2025-06-22''))))
   \<and> perform (statementPlatform (JArr [JObj [(str ''amount'', JStr (str ''5''))]]))
       exampleClient (GetStatement (JStr (str ''2025-06-22'')))
   = Inr (AStatement (Statement (JNum (Fin 1)) (JNum (Fin 0)) (JNum (Fin 0)) (JNum (Fin 1))
            (JNum (Fin 0)) (JNum (Fin 0)) (Date (Fin 1700000000000))
            [StatementTransaction JUndefined JUndefined JUndefined JUndefined (JNum (Fin 5))
               JNull JUndefined JUndefined JUndefined JUndefined]))
   \<and> perform (statementPlatform (JArr [JObj [(str ''amount'', JStr (str ''999''))]]))
       exampleClient (GetStatement (JStr (str ''2025-06-22'')))
   = Inr (AStatement (Statement (JNum (Fin 1)) (JNum (Fin 0)) (JNum (Fin 0)) (JNum (Fin 1))
            (JNum (Fin 0)) (JNum (Fin 0)) (Date (Fin 1700000000000))
            [StatementTransaction JUndefined JUndefined JUndefined JUndefined (JNum (Fin 999))
               JNull JUndefined JUndefined JUndefined JUndefined]))"
proof -
  have "pick (field (statementBody r) ''data'')
          (signedResponseFields (GetStatement (JStr (str ''2025-06-22''))))
        = pick (field (statementBody r') ''data'')
            (signedResponseFields (GetStatement (JStr (str ''2025-06-22''))))" for r r'
    by (simp add: statement_fields)
  then show ?thesis
    by (intro conjI getStatement_example parseFloat_digit)
qed

section \<open>Numeric fields of the records\<close>

lemma new_Balance_numbers:
  "new_Balance pf b t = Inr x \<Longrightarrow> \<exists>n. parseFloat pf b = Inr n \<and> Balance.balance x = JNum n"
  by (auto simp: new_Balance_def bindE_eq_Inr)

lemma new_PaymentRequest_numbers:
  "new_PaymentRequest pf u i t a r s = Inr x \<Longrightarrow>
   \<exists>n. parseFloat pf a = Inr n \<and> PaymentRequest.amount x = JNum n"
  by (auto simp: new_PaymentRequest_def bindE_eq_Inr)

lemma new_PaymentStatus_numbers:
  "new_PaymentStatus pf i t a p r d q s = Inr x \<Longrightarrow>
   \<exists>n. parseFloat pf a = Inr n \<and> PaymentStatus.amount x = JNum n"
  by (auto simp: new_PaymentStatus_def bindE_eq_Inr)

lemma new_SendMoneyResult_numbers:
  "new_SendMoneyResult pf a f i ob nb t r s = Inr x \<Longrightarrow>
   \<exists>n1 n2 n3 n4.
     parseFloat pf a = Inr n1 \<and> SendMoneyResult.amount x = JNum n1
     \<and> parseFloat pf f = Inr n2 \<and> SendMoneyResult.senderFee x = JNum n2
     \<and> parseFloat pf ob = Inr n3 \<and> SendMoneyResult.oldBalance x = JNum n3
     \<and> parseFloat pf nb = Inr n4 \<and> SendMoneyResult.newBalance x = JNum n4"
  by (auto simp: new_SendMoneyResult_def bindE_eq_Inr)

lemma new_Statement_numbers:
  "new_Statement pf ab oc od db ti tt s rows = Inr x \<Longrightarrow>
   \<exists>n1 n2 n3 n4 n5 n6.
     parseFloat pf ab = Inr n1 \<and> Statement.availableBalance x = JNum n1
     \<and> parseFloat pf oc = Inr n2 \<and> Statement.outstandingCredit x = JNum n2
     \<and> parseFloat pf od = Inr n3 \<and> Statement.outstandingDebit x = JNum n3
     \<and> parseFloat pf db = Inr n4 \<and> Statement.dayBalance x = JNum n4
     \<and> parseFloat pf ti = Inr n5 \<and> Statement.dayTotalIn x = JNum n5
     \<and> parseFloat pf tt = Inr n6 \<and> Statement.dayTotalOut x = JNum n6"
  by (auto simp: new_Statement_def bindE_eq_Inr)

lemma new_OutstandingTransactions_numbers:
  "new_OutstandingTransactions pf oc od s rows = Inr x \<Longrightarrow>
   \<exists>n1 n2.
     parseFloat pf oc = Inr n1 \<and> OutstandingTransactions.outstandingCredit x = JNum n1
     \<and> parseFloat pf od = Inr n2 \<and> OutstandingTransactions.outstandingDebit x = JNum n2"
  by (auto simp: new_OutstandingTransactions_def bindE_eq_Inr)

lemma new_StatementTransaction_numbers:
  "new_StatementTransaction pf i dt ts d a b r ot st ca = Inr x \<Longrightarrow>
   parseFloatOrNull pf a = Inr (StatementTransaction.amount x)
   \<and> parseFloatOrNull pf b = Inr (StatementTransaction.balance x)"
  by (auto simp: new_StatementTransaction_def bindE_eq_Inr)

lemma new_OutstandingTransaction_numbers:
  "new_OutstandingTransaction pf i dt ts d a b r ot st ca = Inr x \<Longrightarrow>
   parseFloatOrNull pf a = Inr (OutstandingTransaction.amount x)
   \<and> parseFloatOrNull pf b = Inr (OutstandingTransaction.balance x)"
  by (auto simp: new_OutstandingTransaction_def bindE_eq_Inr)

text \<open>
  C7, as amended. The string \<^verbatim>\<open>"49.90"\<close> in a numeric field maps to the number 49.9 (the
  Number of the decimal value 499/10) in every record variant. \<^verbatim>\<open>null\<close> in a numeric field
  maps to \<^verbatim>\<open>null\<close> in the \<^verbatim>\<open>amount\<close> and \<^verbatim>\<open>balance\<close> of a \<^verbatim>\<open>StatementTransaction\<close> and of an
  \<^verbatim>\<open>OutstandingTransaction\<close>, which test for it; every other numeric field, those of
  \<^verbatim>\<open>Balance\<close>, \<^verbatim>\<open>PaymentRequest\<close>, \<^verbatim>\<open>PaymentStatus\<close>, \<^verbatim>\<open>SendMoneyResult\<close>, \<^verbatim>\<open>Statement\<close> and
  \<^verbatim>\<open>OutstandingTransactions\<close>, is \<^verbatim>\<open>parseFloat\<close> of what it is given, and that is \<^verbatim>\<open>NaN\<close>
  for \<^verbatim>\<open>null\<close>. No numeric field maps \<^verbatim>\<open>null\<close> to 0.
\<close>

theorem numeric_fields:
  "parseFloat pf (JStr (str ''49.90'')) = Inr (toDouble pf (499 / 10))
   \<and> parseFloatOrNull pf (JStr (str ''49.90'')) = Inr (JNum (toDouble pf (499 / 10)))
   \<and> parseFloat pf JNull = Inr NaN
   \<and> parseFloatOrNull pf JNull = Inr JNull
   \<and> (new_Balance pf b1 t1 = Inr x1 \<longrightarrow>
        (\<exists>n. parseFloat pf b1 = Inr n \<and> Balance.balance x1 = JNum n))
   \<and> (new_PaymentRequest pf u2 i2 t2 a2 r2 s2 = Inr x2 \<longrightarrow>
        (\<exists>n. parseFloat pf a2 = Inr n \<and> PaymentRequest.amount x2 = JNum n))
   \<and> (new_PaymentStatus pf i3 t3 a3 p3 r3 d3 q3 s3 = Inr x3 \<longrightarrow>
        (\<exists>n. parseFloat pf a3 = Inr n \<and> PaymentStatus.amount x3 = JNum n))
   \<and> (new_SendMoneyResult pf a4 f4 i4 ob4 nb4 t4 r4 s4 = Inr x4 \<longrightarrow>
        (\<exists>n1 n2 n3 n4.
           parseFloat pf a4 = Inr n1 \<and> SendMoneyResult.amount x4 = JNum n1
           \<and> parseFloat pf f4 = Inr n2 \<and> SendMoneyResult.senderFee x4 = JNum n2
           \<and> parseFloat pf ob4 = Inr n3 \<and> SendMoneyResult.oldBalance x4 = JNum n3
           \<and> parseFloat pf nb4 = Inr n4 \<and> SendMoneyResult.newBalance x4 = JNum n4))
   \<and> (new_Statement pf ab5 oc5 od5 db5 ti5 tt5 s5 rows5 = Inr x5 \<longrightarrow>
        (\<exists>n1 n2 n3 n4 n5 n6.
           parseFloat pf ab5 = Inr n1 \<and> Statement.availableBalance x5 = JNum n1
           \<and> parseFloat pf oc5 = Inr n2 \<and> Statement.outstandingCredit x5 = JNum n2
           \<and> parseFloat pf od5 = Inr n3 \<and> Statement.outstandingDebit x5 = JNum n3
           \<and> parseFloat pf db5 = Inr n4 \<and> Statement.dayBalance x5 = JNum n4
           \<and> parseFloat pf ti5 = Inr n5 \<and> Statement.dayTotalIn x5 = JNum n5
           \<and> parseFloat pf tt5 = Inr n6 \<and> Statement.dayTotalOut x5 = JNum n6))
   \<and> (new_OutstandingTransactions pf oc6 od6 s6 rows6 = Inr x6 \<longrightarrow>
        (\<exists>n1 n2.
           parseFloat pf oc6 = Inr n1 \<and> OutstandingTransactions.outstandingCredit x6 = JNum n1
           \<and> parseFloat pf od6 = Inr n2 \<and> OutstandingTransactions.outstandingDebit x6 = JNum n2))
   \<and> (new_StatementTransaction pf i7 dt7 ts7 d7 a7 b7 r7 ot7 st7 ca7 = Inr x7 \<longrightarrow>
        parseFloatOrNull pf a7 = Inr (StatementTransaction.amount x7)
        \<and> parseFloatOrNull pf b7 = Inr (StatementTransaction.balance x7))
   \<and> (new_OutstandingTransaction pf i8 dt8 ts8 d8 a8 b8 r8 ot8 st8 ca8 = Inr x8 \<longrightarrow>
        parseFloatOrNull pf a8 = Inr (OutstandingTransaction.amount x8)
        \<and> parseFloatOrNull pf b8 = Inr (OutstandingTransaction.balance x8))"
proof -
  have "parseFloat pf (JStr (str ''49.90'')) = Inr (toDouble pf (499 / 10))"
    by (rule parseFloat_49_90)
  moreover have "parseFloatOrNull pf (JStr (str ''49.90'')) = Inr (JNum (toDouble pf (499 / 10)))"
    by (simp add: parseFloatOrNull_def parseFloat_49_90)
  moreover have "parseFloat pf JNull = Inr NaN"
    by (rule parseFloat_null)
  moreover have "parseFloatOrNull pf JNull = Inr JNull"
    by (simp add: parseFloatOrNull_def)
  ultimately show ?thesis
    by (intro conjI impI new_Balance_numbers new_PaymentRequest_numbers
          new_PaymentStatus_numbers new_SendMoneyResult_numbers new_Statement_numbers
          new_OutstandingTransactions_numbers
          new_StatementTransaction_numbers [THEN conjunct1]
          new_StatementTransaction_numbers [THEN conjunct2]
          new_OutstandingTransaction_numbers [THEN conjunct1]
          new_OutstandingTransaction_numbers [THEN conjunct2])
qed

lemma new_PaymentStatus_example:
  "new_PaymentStatus examplePlatform (JStr (str ''r1'')) JNull (JStr (str ''49.90'')) JNull JNull
     (JStr (str ''d'')) (JBool False) (JStr (str ''1700000000000''))
   = Inr (PaymentStatus (JStr (str ''r1'')) JNull (JNum (toDouble examplePlatform (499 / 10)))
            JNull JNull (JStr (str ''d'')) (JBool False) (Date (Fin 1700000000000)))"
  by (simp add: new_PaymentStatus_def parseFloat_49_90 stringToNumber_timestamp)

lemma new_StatementTransaction_example:
  "new_StatementTransaction examplePlatform (JStr (str ''t1'')) JNull JNull JNull JNull
     (JStr (str ''49.90'')) JNull (JNum (Fin 1)) (JNum (Fin 2)) JNull
   = Inr (StatementTransaction (JStr (str ''t1'')) JNull JNull JNull JNull
            (JNum (toDouble examplePlatform (499 / 10))) JNull (JNum (Fin 1)) (JNum (Fin 2))
            JNull)"
  by (simp add: new_StatementTransaction_def parseFloatOrNull_def parseFloat_49_90)

theorem numeric_fields_witness:
  "(\<exists>n. parseFloat examplePlatform (JStr (str ''49.90'')) = Inr n
        \<and> JNum (toDouble examplePlatform (499 / 10)) = JNum n)
   \<and> parseFloatOrNull examplePlatform JNull = Inr JNull
   \<and> parseFloatOrNull examplePlatform (JStr (str ''49.90''))
       = Inr (JNum (toDouble examplePlatform (499 / 10)))"
  using numeric_fields
          [where pf = examplePlatform
             and ?i3.0 = "JStr (str ''r1'')" and ?t3.0 = JNull
             and ?a3.0 = "JStr (str ''49.90'')" and ?p3.0 = JNull and ?r3.0 = JNull
             and ?d3.0 = "JStr (str ''d'')" and ?q3.0 = "JBool False"
             and ?s3.0 = "JStr (str ''1700000000000'')"
             and ?x3.0 = "PaymentStatus (JStr (str ''r1'')) JNull
                            (JNum (toDouble examplePlatform (499 / 10))) JNull JNull
                            (JStr (str ''d'')) (JBool False) (Date (Fin 1700000000000))"
             and ?i7.0 = "JStr (str ''t1'')" and ?dt7.0 = JNull and ?ts7.0 = JNull
             and ?d7.0 = JNull and ?a7.0 = JNull and ?b7.0 = "JStr (str ''49.90'')"
             and ?r7.0 = JNull and ?ot7.0 = "JNum (Fin 1)" and ?st7.0 = "JNum (Fin 2)"
             and ?ca7.0 = JNull
             and ?x7.0 = "StatementTransaction (JStr (str ''t1'')) JNull JNull JNull JNull
                            (JNum (toDouble examplePlatform (499 / 10))) JNull (JNum (Fin 1))
                            (JNum (Fin 2)) JNull"]
        new_PaymentStatus_example new_StatementTransaction_example
  by simp

text \<open>
  The claim as worded has \<^verbatim>\<open>null\<close> map to \<^verbatim>\<open>null\<close> in every variant, the amount of a
  \<^verbatim>\<open>PaymentStatus\<close> among them. There it maps to \<^verbatim>\<open>NaN\<close>.
\<close>

theorem numeric_fields_counterexample:
  "new_PaymentStatus examplePlatform (JStr (str ''r1'')) JNull JNull JNull JNull
     (JStr (str ''d'')) (JBool False) (JStr (str ''1700000000000''))
   = Inr (PaymentStatus (JStr (str ''r1'')) JNull (JNum NaN) JNull JNull (JStr (str ''d''))
            (JBool False) (Date (Fin 1700000000000)))"
  by (simp add: new_PaymentStatus_def parseFloat_null stringToNumber_timestamp)

end
